theory Spec2Isabelle
  imports Main "HOL-Library.Word"
begin

section \<open>Strings and rendered (DOM) nodes\<close>

text \<open>
  JavaScript strings are sequences of UTF-16 code units.  Names that the code only
  compares with ASCII literals (tag names, attribute names, transfer formats, values
  of the \<open>display\<close> property) are kept as HOL strings.
\<close>

type_synonym jsstring = "16 word list"

definition js :: "string \<Rightarrow> jsstring" where
  "js s = map (\<lambda>c. of_nat (of_char c)) s"

definition newline :: jsstring where
  "newline = [0x0A]"

text \<open>
  A rendered node, as a value: a text node, an element (tag name, attributes, the
  value \<open>getComputedStyle(node).getPropertyValue('display')\<close> reports for it, and its
  child nodes), or a comment (a node that is neither text nor element).
\<close>

datatype dom_node =
    DOMText (nodeValue: jsstring)
  | DOMElement (tagName: string) (attrs: "(string \<times> jsstring) list")
      (computedDisplay: string) (childNodes: "dom_node list")
  | DOMComment (commentData: jsstring)

text \<open>
  Modelled from the spec: \<open>isDOMText\<close> and \<open>isDOMElement\<close> of \<open>utils/dom\<close>, the tests
  for a text position and an element position of the markup.
\<close>

fun isDOMText :: "dom_node \<Rightarrow> bool" where
  "isDOMText (DOMText v) = True"
| "isDOMText n = False"

fun isDOMElement :: "dom_node \<Rightarrow> bool" where
  "isDOMElement (DOMElement t a d cs) = True"
| "isDOMElement n = False"

section \<open>The logical document\<close>

text \<open>
  The document model is the \<open>slate\<close> package, which the component imports and only
  consumes.  Its data and the read functions the component calls are modelled from
  the interface the specification gives (sections 3 and 6): an ordered tree of
  element nodes with children and of text leaves, paths as child indices from the
  root, points as a path and an offset addressing a leaf, and a selection as an
  anchor and focus pair that may be absent.
\<close>

datatype node =
    Text (textOf: jsstring) (marks: "string list")
  | Element (elementType: string) (childrenOf: "node list")

type_synonym slate_path = "nat list"

record point =
  path :: slate_path
  offset :: nat

record slate_range =
  anchor :: point
  focus :: point

record editor =
  children :: "node list"
  selection :: "slate_range option"

text \<open>
  Modelled from the spec: \<open>Node.get\<close> (path-addressed read).  The node a path of
  child indices resolves to below a node, when it resolves.
\<close>

fun descend :: "node \<Rightarrow> slate_path \<Rightarrow> node option" where
  "descend n [] = Some n"
| "descend (Text s m) (i # p) = None"
| "descend (Element t cs) (i # p) = (if i < length cs then descend (cs ! i) p else None)"

text \<open>
  Modelled from the spec: \<open>Node.get(editor, path)\<close> with the editor object as the
  root of the tree; the root is not an element (it is never void).
\<close>

definition Node_get :: "editor \<Rightarrow> slate_path \<Rightarrow> node option" where
  "Node_get e p = descend (Element [] (children e)) p"

text \<open>
  Modelled from the spec: \<open>Node.first\<close> and \<open>Node.last\<close> (start and end of a node).
  The path, relative to a node, reached by following first (last) children until a
  text leaf or a childless element.
\<close>

fun first_path :: "node \<Rightarrow> slate_path" where
  "first_path (Text s m) = []"
| "first_path (Element t []) = []"
| "first_path (Element t (c # cs)) = 0 # first_path c"


text \<open>
  Modelled from the spec: \<open>Editor.start(editor, path)\<close> and \<open>Editor.end(editor, path)\<close>
  (path-addressed read of the start and end of a node).  The point at offset 0 of the
  first text leaf below the path, respectively at the end of the last one; \<open>None\<close>
  when the path does not resolve or the descent ends in an element without children
  (a point has to address a leaf).
\<close>

definition Editor_start :: "editor \<Rightarrow> slate_path \<Rightarrow> point option" where
  "Editor_start e p =
     (case Node_get e p of
        None \<Rightarrow> None
      | Some n \<Rightarrow>
          (case descend n (first_path n) of
             Some (Text s m) \<Rightarrow> Some \<lparr>path = p @ first_path n, offset = 0\<rparr>
           | _ \<Rightarrow> None))"


text \<open>
  Modelled from the spec: \<open>Editor.range\<close>.  At a point it is the zero-width range at
  that point; at a path it runs from the start to the end of the node.
\<close>

definition Editor_range_point :: "point \<Rightarrow> slate_range" where
  "Editor_range_point pt = \<lparr>anchor = pt, focus = pt\<rparr>"


text \<open>
  Modelled from the spec: the selection predicates \<open>Range.isCollapsed\<close>,
  \<open>Range.isExpanded\<close> and \<open>Range.edges\<close> (collapsed means anchor equals focus; the
  edges are the two points in document order: paths compare index by index over
  their common length, then offsets).
\<close>

definition Range_isCollapsed :: "slate_range \<Rightarrow> bool" where
  "Range_isCollapsed r = (anchor r = focus r)"

definition Range_isExpanded :: "slate_range \<Rightarrow> bool" where
  "Range_isExpanded r = (\<not> Range_isCollapsed r)"

fun Path_compare :: "slate_path \<Rightarrow> slate_path \<Rightarrow> int" where
  "Path_compare (a # as) (b # bs) =
     (if a < b then - 1 else if b < a then 1 else Path_compare as bs)"
| "Path_compare as bs = 0"

definition Point_compare :: "point \<Rightarrow> point \<Rightarrow> int" where
  "Point_compare p q =
     (let result = Path_compare (path p) (path q)
      in if result = 0
         then (if offset p < offset q then - 1 else if offset q < offset p then 1 else 0)
         else result)"

definition Range_isBackward :: "slate_range \<Rightarrow> bool" where
  "Range_isBackward r = (Point_compare (anchor r) (focus r) = 1)"

definition Range_edges :: "slate_range \<Rightarrow> point \<times> point" where
  "Range_edges r = (if Range_isBackward r then (focus r, anchor r) else (anchor r, focus r))"

text \<open>
  Modelled from the spec: \<open>Editor.void(editor, {at})\<close> (void-node lookup at a path or
  point).  Which elements are void is the editor's own predicate \<open>isVoid\<close>.  The
  lookup walks from the root towards the location and answers with the first void
  element that properly contains it, with that element's path; a path that does not
  resolve has no such element.
\<close>

fun void_walk ::
  "(node \<Rightarrow> bool) \<Rightarrow> node list \<Rightarrow> slate_path \<Rightarrow> slate_path \<Rightarrow> (node \<times> slate_path) option"
where
  "void_walk isVoid cs pre [] = None"
| "void_walk isVoid cs pre (i # rest) =
     (if i < length cs
      then (case cs ! i of
              Text s m \<Rightarrow> None
            | Element t kids \<Rightarrow>
                if isVoid (Element t kids)
                then (if rest = [] then None else Some (Element t kids, pre @ [i]))
                else void_walk isVoid kids (pre @ [i]) rest)
      else None)"

definition Editor_void :: "(node \<Rightarrow> bool) \<Rightarrow> editor \<Rightarrow> slate_path \<Rightarrow> (node \<times> slate_path) option" where
  "Editor_void isVoid e p = void_walk isVoid (children e) [] p"


text \<open>
  Modelled from the spec: \<open>Node.texts(editor)\<close> (all text leaves in document order)
  and \<open>Node.string(editor)\<close> (document-to-text stringification: the leaves' texts
  concatenated).
\<close>

fun texts_of :: "node \<Rightarrow> node list" where
  "texts_of (Text s m) = [Text s m]"
| "texts_of (Element t cs) = concat (map texts_of cs)"

definition Node_texts :: "editor \<Rightarrow> node list" where
  "Node_texts e = concat (map texts_of (children e))"

definition Node_string :: "editor \<Rightarrow> jsstring" where
  "Node_string e = concat (map textOf (Node_texts e))"

section \<open>Collaborators and component state\<close>

text \<open>
  A live rendered node is known to the component only by identity.  A native range
  is a pair of (container, offset) boundary points.
\<close>

type_synonym dom_ref = nat

record dom_range =
  startContainer :: dom_ref
  startOffset :: nat
  endContainer :: dom_ref
  endOffset :: nat

text \<open>
  The functions the component consumes from its collaborators are parameters: the
  editor's own methods (\<open>isVoid\<close>, \<open>deleteFragment\<close>), \<open>Node.fragment\<close>, the
  association registry of \<open>ReactEditor\<close> (a logical node is identified by its path, so
  \<open>toSlateNode\<close> answers with the path \<open>findPath\<close> gives for the node; the editor itself
  is the path \<open>[]\<close>), and the platform (range cloning, serialisation, encoding, the
  computed display of a freshly created detached element, the browser family).  The
  lookups of the registry are asked about rendered nodes only, where they answer:
  they are total functions here.
\<close>

record env =
  isVoid :: "node \<Rightarrow> bool"
  deleteFragment :: "editor \<Rightarrow> editor"
  fragment :: "editor \<Rightarrow> slate_range \<Rightarrow> node list"
  toDOMRange :: "editor \<Rightarrow> slate_range \<Rightarrow> dom_range"
  toSlateRange :: "editor \<Rightarrow> dom_range \<Rightarrow> slate_range"
  toDOMNode :: "editor \<Rightarrow> slate_path \<Rightarrow> dom_ref"
  toSlateNode :: "editor \<Rightarrow> dom_ref \<Rightarrow> slate_path"
  hasDOMNode :: "editor \<Rightarrow> dom_ref \<Rightarrow> bool \<Rightarrow> bool"
  cloneContents :: "dom_range \<Rightarrow> dom_node list"
  setEndAfter :: "dom_range \<Rightarrow> dom_ref \<Rightarrow> dom_range"
  parentElement :: "dom_ref \<Rightarrow> dom_ref option"
  isElementRef :: "dom_ref \<Rightarrow> bool"
  hasAttribute :: "dom_ref \<Rightarrow> string \<Rightarrow> bool"
  innerHTML :: "dom_node list \<Rightarrow> jsstring"
  JSON_stringify :: "node list \<Rightarrow> jsstring"
  encodeURIComponent :: "jsstring \<Rightarrow> jsstring"
  btoa :: "jsstring \<Rightarrow> jsstring"
  createdDisplay :: "string \<Rightarrow> string"
  IS_FIREFOX :: bool

text \<open>
  Requests the component issues to the model and to the platform, in the order it
  issues them.
\<close>

datatype effect =
    Select slate_range
  | Deselect
  | DeleteFragment
  | RemoveAllRanges
  | AddRange dom_range
  | ScrollIntoView "dom_ref option"
  | SetTimeout
  | FocusElement dom_ref
  | SetData string jsstring

text \<open>
  The state one mounted component works on: the editor (document and logical
  selection), the \<open>state\<close> object of the component (\<open>isComposing\<close>,
  \<open>isUpdatingSelection\<close>, \<open>latestElement\<close>), the registry flags \<open>IS_FOCUSED\<close> and
  \<open>IS_READ_ONLY\<close>, the platform's selection (\<open>None\<close>: \<open>window.getSelection()\<close> is null;
  \<open>Some None\<close>: a selection of type \<open>None\<close>, without a range) and active element, the
  pending zero-delay timers (each holds what its closure captured: whether
  \<open>newDomRange\<close> was set, and \<open>el\<close>), and the requests issued so far.

  \<open>listenerReadOnly\<close> is the value of \<open>readOnly\<close> inside the \<open>selectionchange\<close>
  listener: the listener is created with \<open>useCallback(debounce(...), [])\<close> and
  registered by an effect with an empty dependency list, so it is the closure of the
  first render and keeps that render's \<open>readOnly\<close>.
\<close>

record world =
  editor :: editor
  isComposing :: bool
  isUpdatingSelection :: bool
  latestElement :: "dom_ref option"
  IS_FOCUSED :: bool
  IS_READ_ONLY :: bool
  listenerReadOnly :: bool
  domSelection :: "dom_range option option"
  activeElement :: "dom_ref option"
  timers :: "(bool \<times> dom_ref) list"
  trace :: "effect list"

text \<open>
  Modelled from the spec: \<open>Transforms.select\<close> and \<open>Transforms.deselect\<close> (transform
  requests): the request is issued and the model's selection becomes the requested
  range, respectively absent.  \<open>Editor.deleteFragment\<close> hands over to the editor's own
  \<open>deleteFragment\<close>.
\<close>

definition Transforms_select :: "slate_range \<Rightarrow> world \<Rightarrow> world" where
  "Transforms_select r w =
     w\<lparr>editor := (editor w)\<lparr>selection := Some r\<rparr>, trace := trace w @ [Select r]\<rparr>"

definition Transforms_deselect :: "world \<Rightarrow> world" where
  "Transforms_deselect w =
     w\<lparr>editor := (editor w)\<lparr>selection := None\<rparr>, trace := trace w @ [Deselect]\<rparr>"

definition Editor_deleteFragment :: "env \<Rightarrow> world \<Rightarrow> world" where
  "Editor_deleteFragment env w =
     w\<lparr>editor := deleteFragment env (editor w), trace := trace w @ [DeleteFragment]\<rparr>"

section \<open>Outbound selection synchronisation (Editable, layout effect)\<close>

definition isRangeEqual :: "dom_range \<Rightarrow> dom_range \<Rightarrow> bool" where
  "isRangeEqual a b =
     ((startContainer a = startContainer b \<and>
       startOffset a = startOffset b \<and>
       endContainer a = endContainer b \<and>
       endOffset a = endOffset b) \<or>
      (startContainer a = endContainer b \<and>
       startOffset a = endOffset b \<and>
       endContainer a = startContainer b \<and>
       endOffset a = startOffset b))"

text \<open>
  The effect that runs after every render.  Its last part, the native write
  (\<open>updateDOMSelection\<close>: everything after the comment "Otherwise the DOM selection
  is out of sync, so update it"), is \<open>removeAllRanges\<close>, then \<open>addRange\<close> and
  \<open>scrollIntoView\<close> when there is a new range, then a timer is set.  After
  \<open>removeAllRanges\<close> the native selection has no range; after \<open>addRange\<close> it holds
  the range added.
\<close>

definition updateDOMSelection :: "env \<Rightarrow> dom_range option \<Rightarrow> world \<Rightarrow> world" where
  "updateDOMSelection env newDomRange w =
     (let el = toDOMNode env (editor w) [];
          w1 = w\<lparr>isUpdatingSelection := True\<rparr>;
          w2 = w1\<lparr>domSelection := Some None, trace := trace w1 @ [RemoveAllRanges]\<rparr>;
          w3 = (case newDomRange of
                  None \<Rightarrow> w2
                | Some new \<Rightarrow>
                    w2\<lparr>domSelection := Some (Some new),
                       trace := trace w2 @
                         [AddRange new,
                          ScrollIntoView (parentElement env (startContainer new))]\<rparr>)
      in w3\<lparr>timers := timers w3 @ [(newDomRange \<noteq> None, el)],
            trace := trace w3 @ [SetTimeout]\<rparr>)"

definition syncSelection :: "env \<Rightarrow> world \<Rightarrow> world" where
  "syncSelection env w =
     (case domSelection w of
        None \<Rightarrow> w
      | Some native \<Rightarrow>
          if isComposing w \<or> \<not> IS_FOCUSED w then w
          else
            let hasDomSelection = (native \<noteq> None) in
            if selection (editor w) = None \<and> \<not> hasDomSelection then w
            else
              let newDomRange = map_option (toDOMRange env (editor w)) (selection (editor w)) in
              if hasDomSelection \<and>
                 (case (native, newDomRange) of
                    (Some current, Some new) \<Rightarrow> isRangeEqual current new
                  | _ \<Rightarrow> False)
              then w
              else updateDOMSelection env newDomRange w)"

text \<open>The timer callback set by the effect, run for the oldest pending timer.\<close>

definition runTimer :: "env \<Rightarrow> world \<Rightarrow> world" where
  "runTimer env w =
     (case timers w of
        [] \<Rightarrow> w
      | (hadRange, el) # rest \<Rightarrow>
          let w1 = (if hadRange \<and> IS_FIREFOX env
                    then w\<lparr>trace := trace w @ [FocusElement el]\<rparr> else w)
          in w1\<lparr>isUpdatingSelection := False, timers := rest\<rparr>)"

text \<open>The number of native-selection writes issued so far: each write starts by
  clearing the native selection.\<close>

definition nativeWrites :: "world \<Rightarrow> nat" where
  "nativeWrites w = length (filter (\<lambda>x. x = RemoveAllRanges) (trace w))"

text \<open>
  The native selection needs no write: one of the three early returns of the effect
  after the focus test applies.
\<close>

definition selectionInSync :: "env \<Rightarrow> world \<Rightarrow> bool" where
  "selectionInSync env w =
     (case domSelection w of
        None \<Rightarrow> True
      | Some native \<Rightarrow>
          isComposing w \<or> \<not> IS_FOCUSED w \<or>
          (selection (editor w) = None \<and> native = None) \<or>
          (case (native, selection (editor w)) of
             (Some current, Some s) \<Rightarrow> isRangeEqual current (toDOMRange env (editor w) s)
           | _ \<Rightarrow> False))"

section \<open>Plain-text extraction (utils.ts, getPlainText)\<close>

text \<open>
  The source accumulates \<open>text += getPlainText(childNode)\<close> over the child nodes in
  order, then appends one newline when the computed display is \<open>block\<close> or \<open>list\<close> or
  the tag is \<open>BR\<close>.  A text node with a non-empty value returns that value at once;
  every other node falls through to \<open>return text\<close>.
\<close>

fun getPlainText :: "dom_node \<Rightarrow> jsstring" where
  "getPlainText (DOMText v) = (if v \<noteq> [] then v else [])"
| "getPlainText (DOMElement t a d cs) =
     (let text = foldl (\<lambda>text childNode. text @ getPlainText childNode) [] cs
      in if d = ''block'' \<or> d = ''list'' \<or> t = ''BR'' then text @ newline else text)"
| "getPlainText (DOMComment c) = []"

section \<open>The clipboard fragment codec (utils.ts, setFragmentData)\<close>

subsection \<open>Platform operations on cloned markup\<close>

text \<open>
  \<open>String.prototype.trim\<close> removes the ECMAScript white space and line terminator
  code units from both ends.
\<close>

definition isWhiteSpace :: "16 word \<Rightarrow> bool" where
  "isWhiteSpace c =
     (c = 0x09 \<or> c = 0x0A \<or> c = 0x0B \<or> c = 0x0C \<or> c = 0x0D \<or> c = 0x20 \<or> c = 0xA0 \<or>
      c = 0x1680 \<or> (0x2000 \<le> c \<and> c \<le> 0x200A) \<or> c = 0x2028 \<or> c = 0x2029 \<or>
      c = 0x202F \<or> c = 0x205F \<or> c = 0x3000 \<or> c = 0xFEFF)"

definition trim :: "jsstring \<Rightarrow> jsstring" where
  "trim s = rev (dropWhile isWhiteSpace (rev (dropWhile isWhiteSpace s)))"

text \<open>
  \<open>node.textContent\<close>: the data of a text or comment node; for an element the data
  of its text descendants in document order (comments inside it do not count).
\<close>

fun descendantText :: "dom_node \<Rightarrow> jsstring" where
  "descendantText (DOMText v) = v"
| "descendantText (DOMElement t a d cs) = concat (map descendantText cs)"
| "descendantText (DOMComment c) = []"

fun textContent :: "dom_node \<Rightarrow> jsstring" where
  "textContent (DOMComment c) = c"
| "textContent n = descendantText n"

definition getAttribute :: "dom_node \<Rightarrow> string \<Rightarrow> jsstring option" where
  "getAttribute n name = (case n of DOMElement t a d cs \<Rightarrow> map_of a name | _ \<Rightarrow> None)"

fun setAttr :: "(string \<times> jsstring) list \<Rightarrow> string \<Rightarrow> jsstring \<Rightarrow> (string \<times> jsstring) list" where
  "setAttr [] name v = [(name, v)]"
| "setAttr ((k, x) # a) name v = (if k = name then (k, v) # a else (k, x) # setAttr a name v)"

text \<open>
  \<open>attach.setAttribute(name, v)\<close>: only an element has the method; on any other
  node the call is a TypeError (\<open>None\<close>).
\<close>

fun setAttribute :: "string \<Rightarrow> jsstring \<Rightarrow> dom_node \<Rightarrow> dom_node option" where
  "setAttribute name v (DOMElement t a d cs) = Some (DOMElement t (setAttr a name v) d cs)"
| "setAttribute name v n = None"

text \<open>
  A position in a list of nodes: the child indices leading to a node.  \<open>dom_get\<close>
  reads the node there, \<open>dom_update\<close> replaces it by its image, \<open>dom_remove\<close> takes
  it out of its parent.
\<close>

fun dom_get :: "dom_node list \<Rightarrow> nat list \<Rightarrow> dom_node option" where
  "dom_get cs [] = None"
| "dom_get cs [i] = (if i < length cs then Some (cs ! i) else None)"
| "dom_get cs (i # j # p) =
     (if i < length cs
      then (case cs ! i of DOMElement t a d kids \<Rightarrow> dom_get kids (j # p) | _ \<Rightarrow> None)
      else None)"

fun dom_update :: "(dom_node \<Rightarrow> dom_node) \<Rightarrow> dom_node list \<Rightarrow> nat list \<Rightarrow> dom_node list" where
  "dom_update f cs [] = cs"
| "dom_update f cs [i] = (if i < length cs then cs[i := f (cs ! i)] else cs)"
| "dom_update f cs (i # j # p) =
     (if i < length cs
      then (case cs ! i of
              DOMElement t a d kids \<Rightarrow> cs[i := DOMElement t a d (dom_update f kids (j # p))]
            | _ \<Rightarrow> cs)
      else cs)"

fun dom_remove :: "dom_node list \<Rightarrow> nat list \<Rightarrow> dom_node list" where
  "dom_remove cs [] = cs"
| "dom_remove cs [i] = take i cs @ drop (Suc i) cs"
| "dom_remove cs (i # j # p) =
     (if i < length cs
      then (case cs ! i of
              DOMElement t a d kids \<Rightarrow> cs[i := DOMElement t a d (dom_remove kids (j # p))]
            | _ \<Rightarrow> cs)
      else cs)"

text \<open>
  The position of the first node, in document order, that satisfies a test;
  \<open>None\<close> when there is none.  \<open>contents.querySelector('[name]')\<close> is the first
  element that has the attribute (\<open>None\<close> for null).
\<close>

fun findFirst_node :: "(dom_node \<Rightarrow> bool) \<Rightarrow> dom_node \<Rightarrow> nat list option"
  and findFirst_from :: "(dom_node \<Rightarrow> bool) \<Rightarrow> nat \<Rightarrow> dom_node list \<Rightarrow> nat list option"
where
  "findFirst_node P (DOMElement t a d cs) =
     (if P (DOMElement t a d cs) then Some [] else findFirst_from P 0 cs)"
| "findFirst_node P (DOMText v) = (if P (DOMText v) then Some [] else None)"
| "findFirst_node P (DOMComment c) = (if P (DOMComment c) then Some [] else None)"
| "findFirst_from P i [] = None"
| "findFirst_from P i (n # ns) =
     (case findFirst_node P n of
        Some p \<Rightarrow> Some (i # p)
      | None \<Rightarrow> findFirst_from P (Suc i) ns)"

definition querySelector :: "string \<Rightarrow> dom_node list \<Rightarrow> nat list option" where
  "querySelector name contents = findFirst_from (\<lambda>n. getAttribute n name \<noteq> None) 0 contents"

text \<open>
  The loop over \<open>querySelectorAll('[data-slate-zero-width]')\<close>: every element with
  the attribute gets \<open>textContent\<close> set, to a newline when the attribute's value is
  \<open>n\<close> and to the empty string otherwise.  Setting \<open>textContent\<close> replaces all
  children by one text node, or by nothing for the empty string.
\<close>

fun stripZeroWidth :: "dom_node \<Rightarrow> dom_node" where
  "stripZeroWidth (DOMElement t a d cs) =
     (case map_of a ''data-slate-zero-width'' of
        Some v \<Rightarrow> DOMElement t a d (if v = js ''n'' then [DOMText newline] else [])
      | None \<Rightarrow> DOMElement t a d (map stripZeroWidth cs))"
| "stripZeroWidth n = n"

text \<open>Whether a proper ancestor of a position, inside the list, has an attribute.\<close>

fun attributeAbove :: "string \<Rightarrow> dom_node list \<Rightarrow> nat list \<Rightarrow> bool" where
  "attributeAbove name cs (i # j # p) =
     (if i < length cs
      then (case cs ! i of
              DOMElement t a d kids \<Rightarrow> map_of a name \<noteq> None \<or> attributeAbove name kids (j # p)
            | _ \<Rightarrow> False)
      else False)"
| "attributeAbove name cs p = False"

text \<open>
  \<open>dataTransfer.setData(format, data)\<close>: an entry of the same format is replaced.
\<close>

definition setData :: "(string \<times> jsstring) list \<Rightarrow> string \<Rightarrow> jsstring \<Rightarrow> (string \<times> jsstring) list" where
  "setData dt format v = filter (\<lambda>kv. fst kv \<noteq> format) dt @ [(format, v)]"

subsection \<open>setFragmentData\<close>

text \<open>
  Exceptions are values: a \<open>TypeError\<close> of the platform (a method call on
  \<open>undefined\<close>, \<open>null\<close> or a node without the method) and an error thrown by the
  document model.  A function that can throw answers \<open>Inl\<close> with the error and the
  state at the throw, or \<open>Inr\<close> with the state it returns normally.
\<close>

datatype error = TypeError | SlateError

type_synonym 'a outcome = "(error \<times> 'a) + 'a"

text \<open>
  The variable \<open>attach\<close> is a reference to a node.  It either addresses a node of
  the current \<open>contents\<close> fragment, by its position, or is a node outside of it: a
  node of the first clone after \<open>contents\<close> was replaced by the extended clone, or a
  node that the zero-width loop cut off from \<open>contents\<close>.
\<close>

datatype attach_ref = Attached "nat list" | Detached dom_node

definition nonEmptyText :: "dom_node \<Rightarrow> bool" where
  "nonEmptyText n = (textContent n \<noteq> [] \<and> trim (textContent n) \<noteq> [])"

text \<open>
  \<open>let attach = contents.childNodes[0]\<close>, then the \<open>forEach\<close> over the child nodes
  that assigns every child with non-blank text to \<open>attach\<close>.  The result is the index
  of the child \<open>attach\<close> refers to after the loop, \<open>None\<close> for \<open>undefined\<close>.
\<close>

definition chooseAttach :: "dom_node list \<Rightarrow> nat option" where
  "chooseAttach contents =
     foldl (\<lambda>attach (i, n). if nonEmptyText n then Some i else attach)
       (if contents = [] then None else Some 0)
       (enumerate 0 contents)"

text \<open>
  The reference after the two COMPAT blocks: with a void start edge it is what
  \<open>contents.querySelector('[data-slate-spacer]')\<close> finds in the current clone;
  otherwise it is the child chosen in the first clone, which is no longer part of
  \<open>contents\<close> when the void end edge made the code clone the range again.
\<close>

definition attachAfterClone ::
  "bool \<Rightarrow> bool \<Rightarrow> dom_node list \<Rightarrow> dom_node list \<Rightarrow> attach_ref option" where
  "attachAfterClone startVoid endVoid contents0 contents1 =
     (if startVoid then map_option Attached (querySelector ''data-slate-spacer'' contents1)
      else (case chooseAttach contents0 of
              None \<Rightarrow> None
            | Some i \<Rightarrow> Some (if endVoid then Detached (contents0 ! i) else Attached [i])))"

definition removeZeroWidth ::
  "dom_node list \<Rightarrow> attach_ref option \<Rightarrow> dom_node list \<times> attach_ref option" where
  "removeZeroWidth contents attach =
     (map stripZeroWidth contents,
      (case attach of
         Some (Attached p) \<Rightarrow>
           (if attributeAbove ''data-slate-zero-width'' contents p
            then map_option (\<lambda>n. Detached (stripZeroWidth n)) (dom_get contents p)
            else Some (Attached p))
       | other \<Rightarrow> other))"

definition spanFor :: "env \<Rightarrow> dom_node \<Rightarrow> dom_node" where
  "spanFor env n =
     DOMElement ''SPAN'' [(''style'', js ''white-space: pre;'')] (createdDisplay env ''span'') [n]"

text \<open>The node \<open>attach\<close> refers to; \<open>None\<close> when \<open>attach\<close> is \<open>undefined\<close> or \<open>null\<close>.\<close>

definition attachNode :: "dom_node list \<Rightarrow> attach_ref option \<Rightarrow> dom_node option" where
  "attachNode contents attach =
     (case attach of
        None \<Rightarrow> None
      | Some (Detached n) \<Rightarrow> Some n
      | Some (Attached p) \<Rightarrow> dom_get contents p)"

text \<open>
  \<open>if (isDOMText(attach))\<close>: the text node moves into a new \<open>span\<close> (out of
  \<open>contents\<close>, when it was part of it), the span is appended to \<open>contents\<close> and becomes
  \<open>attach\<close>.
\<close>

definition wrapTextAttach ::
  "env \<Rightarrow> dom_node list \<Rightarrow> attach_ref option \<Rightarrow> dom_node list \<times> attach_ref option" where
  "wrapTextAttach env contents attach =
     (case attachNode contents attach of
        Some (DOMText v) \<Rightarrow>
          (let rest = (case attach of
                         Some (Attached p) \<Rightarrow> dom_remove contents p
                       | _ \<Rightarrow> contents)
           in (rest @ [spanFor env (DOMText v)], Some (Attached [length rest])))
      | _ \<Rightarrow> (contents, attach))"

text \<open>
  \<open>attach.setAttribute('data-slate-fragment', encoded)\<close>: the contents afterwards,
  or \<open>None\<close> when the call is a TypeError (\<open>attach\<close> is \<open>undefined\<close> or \<open>null\<close>, or a
  node that is not an element).
\<close>

definition attachFragment ::
  "jsstring \<Rightarrow> dom_node list \<Rightarrow> attach_ref option \<Rightarrow> dom_node list option" where
  "attachFragment encoded contents attach =
     (case attachNode contents attach of
        None \<Rightarrow> None
      | Some n \<Rightarrow>
          (case setAttribute ''data-slate-fragment'' encoded n of
             None \<Rightarrow> None
           | Some n' \<Rightarrow>
               Some (case attach of
                       Some (Attached p) \<Rightarrow> dom_update (\<lambda>old. n') contents p
                     | _ \<Rightarrow> contents)))"

text \<open>
  The clone as it stands right before the attribute is set: steps from
  \<open>toDOMRange\<close> to the wrapping of a text \<open>attach\<close>.
\<close>

definition cloneSelection ::
  "env \<Rightarrow> editor \<Rightarrow> slate_range \<Rightarrow> dom_node list \<times> attach_ref option" where
  "cloneSelection env e sel =
     (let (start, endPoint) = Range_edges sel;
          startVoid = Editor_void (isVoid env) e (path start);
          endVoid = Editor_void (isVoid env) e (path endPoint);
          domRange = toDOMRange env e sel;
          contents0 = cloneContents env domRange;
          contents1 =
            (case endVoid of
               None \<Rightarrow> contents0
             | Some (voidNode, voidPath) \<Rightarrow>
                 cloneContents env (setEndAfter env domRange (toDOMNode env e voidPath)));
          attach1 = attachAfterClone (startVoid \<noteq> None) (endVoid \<noteq> None) contents0 contents1;
          (contents2, attach2) = removeZeroWidth contents1 attach1
      in wrapTextAttach env contents2 attach2)"

definition setFragmentData ::
  "env \<Rightarrow> (string \<times> jsstring) list \<Rightarrow> world \<Rightarrow> ((string \<times> jsstring) list \<times> world) outcome" where
  "setFragmentData env dataTransfer w =
     (case selection (editor w) of
        None \<Rightarrow> Inr (dataTransfer, w)
      | Some sel \<Rightarrow>
          let (start, endPoint) = Range_edges sel;
              startVoid = Editor_void (isVoid env) (editor w) (path start)
          in if Range_isCollapsed sel \<and> startVoid = None then Inr (dataTransfer, w)
             else
               let (contents, attach) = cloneSelection env (editor w) sel;
                   frag = fragment env (editor w) sel;
                   str = JSON_stringify env frag;
                   encoded = btoa env (encodeURIComponent env str)
               in (case attachFragment encoded contents attach of
                     None \<Rightarrow> Inl (TypeError, (dataTransfer, w))
                   | Some contents' \<Rightarrow>
                       let dt1 = setData dataTransfer ''application/x-slate-fragment'' encoded;
                           container = DOMElement ''DIV'' [] (createdDisplay env ''div'') contents';
                           html = innerHTML env contents';
                           dt2 = setData dt1 ''text/html'' html;
                           plain = getPlainText container;
                           dt3 = setData dt2 ''text/plain'' plain
                       in Inr (dt3,
                            w\<lparr>trace := trace w @
                               [SetData ''application/x-slate-fragment'' encoded,
                                SetData ''text/html'' html,
                                SetData ''text/plain'' plain]\<rparr>)))"

section \<open>Event mediation (Editable, the handlers)\<close>

text \<open>
  An event as the handlers see it: its target and related target (\<open>None\<close>: null or
  not a DOM node), whether default was prevented or propagation stopped, and the
  entries of the transfer object it carries (\<open>clipboardData\<close> or \<open>dataTransfer\<close>).
\<close>

record event =
  target :: "dom_ref option"
  relatedTarget :: "dom_ref option"
  defaultPrevented :: bool
  propagationStopped :: bool
  transfer :: "(string \<times> jsstring) list"

text \<open>
  A decoration: a range with marker attributes; the placeholder decoration carries
  the private \<open>PLACEHOLDER_SYMBOL\<close> key and the placeholder string.
\<close>

record decoration = slate_range +
  markers :: "(string \<times> jsstring) list"
  PLACEHOLDER_SYMBOL :: bool
  placeholderOf :: "jsstring option"

text \<open>
  The props of one render.  A caller-supplied override (\<open>attributes.onClick\<close> and
  the like) is seen through what it does to the event.
\<close>

record props =
  readOnly :: bool
  placeholder :: "jsstring option"
  decorate :: "editor \<Rightarrow> decoration list"
  attr_onBlur :: "(event \<Rightarrow> event) option"
  attr_onClick :: "(event \<Rightarrow> event) option"
  attr_onCopy :: "(event \<Rightarrow> event) option"
  attr_onCut :: "(event \<Rightarrow> event) option"
  attr_onDragOver :: "(event \<Rightarrow> event) option"
  attr_onDragStart :: "(event \<Rightarrow> event) option"
  attr_onFocus :: "(event \<Rightarrow> event) option"

definition hasTarget :: "env \<Rightarrow> editor \<Rightarrow> dom_ref option \<Rightarrow> bool" where
  "hasTarget env e tgt = (case tgt of None \<Rightarrow> False | Some t \<Rightarrow> hasDOMNode env e t False)"

definition hasEditableTarget :: "env \<Rightarrow> editor \<Rightarrow> dom_ref option \<Rightarrow> bool" where
  "hasEditableTarget env e tgt = (case tgt of None \<Rightarrow> False | Some t \<Rightarrow> hasDOMNode env e t True)"

text \<open>
  \<open>isEventHandled\<close> calls the override, if there is one, and reads the event's flags
  afterwards.  The answer comes with the event as the override left it; the target
  and the related target of an event are read-only.
\<close>

definition isEventHandled :: "event \<Rightarrow> (event \<Rightarrow> event) option \<Rightarrow> bool \<times> event" where
  "isEventHandled ev handler =
     (case handler of
        None \<Rightarrow> (False, ev)
      | Some h \<Rightarrow>
          (let ev' = (h ev)\<lparr>target := target ev, relatedTarget := relatedTarget ev\<rparr>
           in (defaultPrevented ev' \<or> propagationStopped ev', ev')))"

definition preventDefault :: "event \<Rightarrow> event" where
  "preventDefault ev = ev\<lparr>defaultPrevented := True\<rparr>"





text \<open>
  \<open>onClick\<close>.  \<open>Editor.start\<close> throws when the resolved path has no start point.
\<close>

definition onClick :: "env \<Rightarrow> props \<Rightarrow> event \<Rightarrow> world \<Rightarrow> (event \<times> world) outcome" where
  "onClick env p ev w =
     (if \<not> readOnly p \<and> hasTarget env (editor w) (target ev)
      then
        let (handled, ev1) = isEventHandled ev (attr_onClick p) in
        (case target ev1 of
           Some t \<Rightarrow>
             if \<not> handled
             then
               let nodePath = toSlateNode env (editor w) t in
               (case Editor_start (editor w) nodePath of
                  None \<Rightarrow> Inl (SlateError, (ev1, w))
                | Some start \<Rightarrow>
                    if Editor_void (isVoid env) (editor w) (path start) \<noteq> None
                    then Inr (ev1, Transforms_select (Editor_range_point start) w)
                    else Inr (ev1, w))
             else Inr (ev1, w)
         | None \<Rightarrow> Inr (ev1, w))
      else Inr (ev, w))"

definition onCopy :: "env \<Rightarrow> props \<Rightarrow> event \<Rightarrow> world \<Rightarrow> (event \<times> world) outcome" where
  "onCopy env p ev w =
     (if hasEditableTarget env (editor w) (target ev)
      then
        let (handled, ev1) = isEventHandled ev (attr_onCopy p) in
        if \<not> handled
        then
          let ev2 = preventDefault ev1 in
          (case setFragmentData env (transfer ev2) w of
             Inl (err, (dt, w')) \<Rightarrow> Inl (err, (ev2\<lparr>transfer := dt\<rparr>, w'))
           | Inr (dt, w') \<Rightarrow> Inr (ev2\<lparr>transfer := dt\<rparr>, w'))
        else Inr (ev1, w)
      else Inr (ev, w))"

definition onCut :: "env \<Rightarrow> props \<Rightarrow> event \<Rightarrow> world \<Rightarrow> (event \<times> world) outcome" where
  "onCut env p ev w =
     (if \<not> readOnly p \<and> hasEditableTarget env (editor w) (target ev)
      then
        let (handled, ev1) = isEventHandled ev (attr_onCut p) in
        if \<not> handled
        then
          let ev2 = preventDefault ev1 in
          (case setFragmentData env (transfer ev2) w of
             Inl (err, (dt, w')) \<Rightarrow> Inl (err, (ev2\<lparr>transfer := dt\<rparr>, w'))
           | Inr (dt, w') \<Rightarrow>
               (case selection (editor w') of
                  Some sel \<Rightarrow>
                    if Range_isExpanded sel
                    then Inr (ev2\<lparr>transfer := dt\<rparr>, Editor_deleteFragment env w')
                    else Inr (ev2\<lparr>transfer := dt\<rparr>, w')
                | None \<Rightarrow> Inr (ev2\<lparr>transfer := dt\<rparr>, w')))
        else Inr (ev1, w)
      else Inr (ev, w))"



section \<open>Inbound selection synchronisation (Editable, onDOMSelectionChange)\<close>

text \<open>
  One run of the debounced listener body.  The \<open>readOnly\<close> it tests is the one its
  closure captured (\<open>listenerReadOnly\<close>).
\<close>

definition onDOMSelectionChange :: "env \<Rightarrow> world \<Rightarrow> world" where
  "onDOMSelectionChange env w =
     (if \<not> listenerReadOnly w \<and> \<not> isComposing w \<and> \<not> isUpdatingSelection w
      then
        let el = toDOMNode env (editor w) [];
            domRange = (case domSelection w of Some (Some r) \<Rightarrow> Some r | _ \<Rightarrow> None);
            w1 = (if activeElement w = Some el
                  then w\<lparr>latestElement := activeElement w, IS_FOCUSED := True\<rparr>
                  else w\<lparr>IS_FOCUSED := False\<rparr>)
        in (case domRange of
              Some r \<Rightarrow>
                if hasEditableTarget env (editor w1) (Some (startContainer r)) \<and>
                   hasEditableTarget env (editor w1) (Some (endContainer r))
                then Transforms_select (toSlateRange env (editor w1) r) w1
                else Transforms_deselect w1
            | None \<Rightarrow> Transforms_deselect w1)
      else w)"

section \<open>Rendering (Editable, the component body)\<close>

text \<open>
  The first render creates the \<open>selectionchange\<close> listener, which keeps that render's
  \<open>readOnly\<close>; every render stores \<open>readOnly\<close> in \<open>IS_READ_ONLY\<close> and is followed by the
  outbound selection effect.
\<close>

definition mount :: "env \<Rightarrow> props \<Rightarrow> world \<Rightarrow> world" where
  "mount env p w =
     syncSelection env (w\<lparr>IS_READ_ONLY := readOnly p, listenerReadOnly := readOnly p\<rparr>)"

definition rerender :: "env \<Rightarrow> props \<Rightarrow> world \<Rightarrow> world" where
  "rerender env p w = syncSelection env (w\<lparr>IS_READ_ONLY := readOnly p\<rparr>)"

text \<open>
  The decorations of a render: the caller's, and the placeholder decoration pushed
  after them when \<open>placeholder\<close> is truthy (a non-empty string), the editor has one
  child, one text leaf, and the empty string as its text.
\<close>

definition decorations :: "props \<Rightarrow> editor \<Rightarrow> error + decoration list" where
  "decorations p e =
     (let ds = decorate p e in
      if (case placeholder p of None \<Rightarrow> False | Some s \<Rightarrow> s \<noteq> []) \<and>
         length (children e) = 1 \<and>
         length (Node_texts e) = 1 \<and>
         Node_string e = []
      then (case Editor_start e [] of
              None \<Rightarrow> Inl SlateError
            | Some start \<Rightarrow>
                Inr (ds @ [\<lparr>anchor = start, focus = start, markers = [],
                            PLACEHOLDER_SYMBOL = True, placeholderOf = placeholder p\<rparr>]))
      else Inr ds)"

text \<open>
  \<open>decorations.push\<close> appends to the very array the caller's \<open>decorate\<close> returned.
  For a caller whose \<open>decorate\<close> hands out one and the same array at every render,
  the array a render receives is that array as the previous render left it.  The
  array after the renders of a sequence of editor states, from the contents it has
  before the first of them:
\<close>

fun rendersSharing :: "props \<Rightarrow> decoration list \<Rightarrow> editor list \<Rightarrow> error + decoration list" where
  "rendersSharing p arr [] = Inr arr"
| "rendersSharing p arr (e # es) =
     (case decorations (p\<lparr>decorate := (\<lambda>x. arr)\<rparr>) e of
        Inl err \<Rightarrow> Inl err
      | Inr arr' \<Rightarrow> rendersSharing p arr' es)"

section \<open>Notions the properties are stated with\<close>

text \<open>The state a call ends in, whether it returned or threw.\<close>

definition finalState :: "'a outcome \<Rightarrow> 'a" where
  "finalState r = (case r of Inl (err, s) \<Rightarrow> s | Inr s \<Rightarrow> s)"

definition returned :: "'a outcome \<Rightarrow> bool" where
  "returned r = (case r of Inl x \<Rightarrow> False | Inr s \<Rightarrow> True)"

text \<open>The requests a step added to the trace.\<close>

definition issued :: "world \<Rightarrow> world \<Rightarrow> effect list" where
  "issued w w' = drop (length (trace w)) (trace w')"

fun isModelRequest :: "effect \<Rightarrow> bool" where
  "isModelRequest (Select r) = True"
| "isModelRequest Deselect = True"
| "isModelRequest DeleteFragment = True"
| "isModelRequest x = False"

text \<open>
  The data model of the specification: element nodes have children, the leaves of
  the tree are text.
\<close>

fun wfNode :: "node \<Rightarrow> bool" where
  "wfNode (Text s m) = True"
| "wfNode (Element t cs) = (cs \<noteq> [] \<and> list_all wfNode cs)"

text \<open>
  In the words of the specification: the document consists of exactly one empty
  text leaf.
\<close>

definition soleEmptyTextLeaf :: "editor \<Rightarrow> bool" where
  "soleEmptyTextLeaf e = (case Node_texts e of [Text s m] \<Rightarrow> s = [] | _ \<Rightarrow> False)"

text \<open>
  In the words of the specification: the first descendant of the cloned content
  with non-empty text.
\<close>

definition firstNonEmptyTextDescendant :: "dom_node list \<Rightarrow> nat list option" where
  "firstNonEmptyTextDescendant contents = findFirst_from nonEmptyText 0 contents"

text \<open>
  In the words of the specification: the logical selection is absent, or is
  collapsed with its start not inside a void node.
\<close>

definition nothingToCopy :: "env \<Rightarrow> editor \<Rightarrow> bool" where
  "nothingToCopy env e =
     (case selection e of
        None \<Rightarrow> True
      | Some sel \<Rightarrow>
          Range_isCollapsed sel \<and>
          Editor_void (isVoid env) e (path (fst (Range_edges sel))) = None)"

text \<open>In the words of the specification: the logical selection is expanded.\<close>

definition selectionExpanded :: "editor \<Rightarrow> bool" where
  "selectionExpanded e = (case selection e of Some sel \<Rightarrow> Range_isExpanded sel | None \<Rightarrow> False)"

text \<open>
  The clone the code takes first, of the selection's own range, and the clone it
  works on afterwards: the first one again, or, when the end edge is inside a void
  element, the clone of the range extended to behind that element.
\<close>

definition firstClone :: "env \<Rightarrow> editor \<Rightarrow> slate_range \<Rightarrow> dom_node list" where
  "firstClone env e sel = cloneContents env (toDOMRange env e sel)"

definition currentClone :: "env \<Rightarrow> editor \<Rightarrow> slate_range \<Rightarrow> dom_node list" where
  "currentClone env e sel =
     (case Editor_void (isVoid env) e (path (snd (Range_edges sel))) of
        None \<Rightarrow> firstClone env e sel
      | Some (voidNode, voidPath) \<Rightarrow>
          cloneContents env (setEndAfter env (toDOMRange env e sel) (toDOMNode env e voidPath)))"

text \<open>In the words of the specification: the start edge (the end edge) is void.\<close>

definition startsInVoid :: "env \<Rightarrow> editor \<Rightarrow> slate_range \<Rightarrow> bool" where
  "startsInVoid env e sel = (Editor_void (isVoid env) e (path (fst (Range_edges sel))) \<noteq> None)"

definition endsInVoid :: "env \<Rightarrow> editor \<Rightarrow> slate_range \<Rightarrow> bool" where
  "endsInVoid env e sel = (Editor_void (isVoid env) e (path (snd (Range_edges sel))) \<noteq> None)"

text \<open>A node that is neither text nor element.\<close>

fun isDOMComment :: "dom_node \<Rightarrow> bool" where
  "isDOMComment (DOMComment c) = True"
| "isDOMComment n = False"

text \<open>
  Modelled from the spec: the rendered surface the copy code clones (the renderer is
  out of scope; section 4.3, steps 4 to 7, names the void's spacer and the
  zero-width placeholder spans).  A void element of an editable editor is rendered
  with a spacer element around the void's text, so the clone of a selection that
  starts inside a void holds an element with the \<open>data-slate-spacer\<close> marker.  The
  clone of any other selection that is copied (an expanded one) is not empty, and
  its top-level nodes are elements and text, the only nodes the renderer produces.
\<close>

definition stockRendered :: "env \<Rightarrow> editor \<Rightarrow> slate_range \<Rightarrow> bool" where
  "stockRendered env e sel =
     (if startsInVoid env e sel
      then querySelector ''data-slate-spacer'' (currentClone env e sel) \<noteq> None
      else firstClone env e sel \<noteq> [] \<and>
           list_all (\<lambda>n. \<not> isDOMComment n) (firstClone env e sel))"

text \<open>
  Child \<open>i\<close> is the last top-level child with non-blank text content, or the first
  child when no top-level child has non-blank text content.
\<close>

definition chosenChild :: "dom_node list \<Rightarrow> nat \<Rightarrow> bool" where
  "chosenChild cs i =
     (i < length cs \<and>
      (if list_ex nonEmptyText cs
       then nonEmptyText (cs ! i) \<and> list_all (\<lambda>n. \<not> nonEmptyText n) (drop (Suc i) cs)
       else i = 0))"

text \<open>
  An element with the encoded fragment as the value of its \<open>data-slate-fragment\<close>
  attribute.
\<close>

definition withFragment :: "jsstring \<Rightarrow> dom_node \<Rightarrow> dom_node" where
  "withFragment encoded n =
     (case n of
        DOMElement t a d kids \<Rightarrow> DOMElement t (setAttr a ''data-slate-fragment'' encoded) d kids
      | _ \<Rightarrow> n)"


text \<open>The node at a position below a node; the empty position is the node itself.\<close>

definition node_get :: "dom_node \<Rightarrow> nat list \<Rightarrow> dom_node option" where
  "node_get n p =
     (if p = [] then Some n
      else (case n of DOMElement t a d cs \<Rightarrow> dom_get cs p | _ \<Rightarrow> None))"

text \<open>
  Document order on positions: an ancestor comes before its descendants, and an
  earlier sibling's subtree before a later sibling's.
\<close>

definition documentOrder :: "(nat list \<times> nat list) set" where
  "documentOrder = lexord {(a, b). a < b}"

section \<open>An example editor\<close>

text \<open>
  A document with a paragraph holding the text \<open>ab\<close> and a void image element (with
  its empty text child), rendered editable.  The registry numbers rendered nodes
  after the paths of the logical nodes they render: 0 is the root element, 1 the
  paragraph, 11 its text, 2 the void element, 21 the text inside the void's spacer.
  All of them are inside the \<open>contentEditable\<close> root and editable, so the
  editable-only lookup answers as the plain one.  The platform's clone of a range is
  the void's markup when the range starts in the void's text, and the text \<open>ab\<close>
  otherwise.  The concrete instances of the theorems below are stated on it.
\<close>

definition exampleDoc :: "node list" where
  "exampleDoc =
     [Element ''paragraph'' [Text [0x61, 0x62] []],
      Element ''image'' [Text [] []]]"

definition refOfPath :: "slate_path \<Rightarrow> dom_ref" where
  "refOfPath p = foldl (\<lambda>a i. a * 10 + i + 1) 0 p"

definition exampleEnv :: env where
  "exampleEnv =
     \<lparr>isVoid = (\<lambda>n. case n of Element t cs \<Rightarrow> t = ''image'' | Text s m \<Rightarrow> False),
      deleteFragment = (\<lambda>e. e\<lparr>children := [Element ''paragraph'' [Text [] []]]\<rparr>),
      fragment = (\<lambda>e r. children e),
      toDOMRange = (\<lambda>e r.
        \<lparr>startContainer = refOfPath (path (anchor r)), startOffset = offset (anchor r),
         endContainer = refOfPath (path (focus r)), endOffset = offset (focus r)\<rparr>),
      toSlateRange = (\<lambda>e d.
        \<lparr>anchor = \<lparr>path = (if startContainer d = 21 then [1, 0] else [0, 0]),
                   offset = startOffset d\<rparr>,
         focus = \<lparr>path = (if endContainer d = 21 then [1, 0] else [0, 0]),
                  offset = endOffset d\<rparr>\<rparr>),
      toDOMNode = (\<lambda>e p. refOfPath p),
      toSlateNode = (\<lambda>e t.
        if t = 1 then [0] else if t = 11 then [0, 0] else if t = 2 then [1]
        else if t = 21 then [1, 0] else []),
      hasDOMNode = (\<lambda>e t editable. t \<in> {0, 1, 11, 2, 21}),
      cloneContents = (\<lambda>d.
        if startContainer d = 21
        then [DOMElement ''DIV'' [(''data-slate-void'', js ''true'')] ''block''
                [DOMElement ''DIV'' [(''data-slate-spacer'', js ''true'')] ''block''
                   [DOMElement ''SPAN'' [(''data-slate-zero-width'', js ''z'')] ''inline''
                      [DOMText [0xFEFF]]]]]
        else [DOMText [0x61, 0x62]]),
      setEndAfter = (\<lambda>d t. d\<lparr>endContainer := 0, endOffset := 2\<rparr>),
      parentElement = (\<lambda>t. Some (t div 10)),
      isElementRef = (\<lambda>t. True),
      hasAttribute = (\<lambda>t name. False),
      innerHTML = (\<lambda>cs. concat (map descendantText cs)),
      JSON_stringify = (\<lambda>ns. concat (map (\<lambda>n. concat (map textOf (texts_of n))) ns)),
      encodeURIComponent = (\<lambda>s. s),
      btoa = (\<lambda>s. s),
      createdDisplay = (\<lambda>t. []),
      IS_FIREFOX = False\<rparr>"

definition exampleWorld :: world where
  "exampleWorld =
     \<lparr>editor = \<lparr>children = exampleDoc,
                 selection = Some \<lparr>anchor = \<lparr>path = [0, 0], offset = 0\<rparr>,
                                    focus = \<lparr>path = [0, 0], offset = 2\<rparr>\<rparr>\<rparr>,
      isComposing = False,
      isUpdatingSelection = False,
      latestElement = None,
      IS_FOCUSED = True,
      IS_READ_ONLY = False,
      listenerReadOnly = False,
      domSelection = Some (Some \<lparr>startContainer = 11, startOffset = 2,
                                  endContainer = 11, endOffset = 0\<rparr>),
      activeElement = Some 0,
      timers = [],
      trace = []\<rparr>"

definition exampleEvent :: event where
  "exampleEvent =
     \<lparr>target = Some 21, relatedTarget = None, defaultPrevented = False,
      propagationStopped = False, transfer = []\<rparr>"

definition exampleProps :: props where
  "exampleProps =
     \<lparr>readOnly = False, placeholder = Some [0x54], decorate = (\<lambda>e. []),
      attr_onBlur = None, attr_onClick = None, attr_onCopy = None, attr_onCut = None,
      attr_onDragOver = None, attr_onDragStart = None, attr_onFocus = None\<rparr>"

text \<open>The document start: offset 0 of the first text leaf of the document.\<close>

definition documentStart :: "editor \<Rightarrow> point" where
  "documentStart e = \<lparr>path = first_path (Element [] (children e)), offset = 0\<rparr>"

text \<open>
  The same editor after a read-only render: the root is not \<open>contentEditable\<close>, so
  no node is editable, and the void element is rendered without spacer and text, so
  node 21 is gone.
\<close>

definition readOnlyEnv :: env where
  "readOnlyEnv =
     exampleEnv\<lparr>
       toSlateNode := (\<lambda>e t.
         if t = 1 then [0] else if t = 11 then [0, 0] else if t = 2 then [1] else []),
       hasDOMNode := (\<lambda>e t editable. if editable then False else t \<in> {0, 1, 11, 2}),
       cloneContents := (\<lambda>d. [DOMText [0x61, 0x62]])\<rparr>"

text \<open>
  A second document, rendered editable: one paragraph with two text leaves, \<open>a\<close>
  and a bold \<open>b\<close>, both selected (0 is the root element, 1 the paragraph, 11 and 12
  the texts).  Each leaf is rendered as the \<open>Text\<close>, \<open>Leaf\<close> and \<open>String\<close>
  components render it, and the clone of the selection's range holds the markup of
  the two leaves.
\<close>

definition leafMarkup :: "jsstring \<Rightarrow> dom_node" where
  "leafMarkup s =
     DOMElement ''SPAN'' [(''data-slate-node'', js ''text'')] ''inline''
       [DOMElement ''SPAN'' [(''data-slate-leaf'', js ''true'')] ''inline''
          [DOMElement ''SPAN'' [(''data-slate-string'', js ''true'')] ''inline'' [DOMText s]]]"

definition twoLeafWorld :: world where
  "twoLeafWorld =
     exampleWorld\<lparr>
       editor :=
         \<lparr>children = [Element ''paragraph'' [Text [0x61] [], Text [0x62] [''bold'']]],
          selection = Some \<lparr>anchor = \<lparr>path = [0, 0], offset = 0\<rparr>,
                             focus = \<lparr>path = [0, 1], offset = 1\<rparr>\<rparr>\<rparr>,
       domSelection := Some (Some \<lparr>startContainer = 11, startOffset = 0,
                                    endContainer = 12, endOffset = 1\<rparr>)\<rparr>"

definition twoLeafEnv :: env where
  "twoLeafEnv =
     exampleEnv\<lparr>
       toSlateNode := (\<lambda>e t.
         if t = 1 then [0] else if t = 11 then [0, 0] else if t = 12 then [0, 1] else []),
       hasDOMNode := (\<lambda>e t editable. t \<in> {0, 1, 11, 12}),
       cloneContents := (\<lambda>d. [leafMarkup [0x61], leafMarkup [0x62]])\<rparr>"

section \<open>Properties\<close>

lemma foldl_append_concat:
  "foldl (\<lambda>acc x. acc @ f x) a xs = a @ concat (map f xs)"
  by (induction xs arbitrary: a) simp_all

text \<open>
  Claim C7.  Plain-text extraction: a text node contributes its literal text; an
  element contributes the concatenation of its children's contributions in child
  order, followed by exactly one newline if and only if its computed display is
  \<open>block\<close> or \<open>list\<close> or it is a \<open>BR\<close> element (and by nothing otherwise).
\<close>

theorem getPlainText_spec:
  "getPlainText (DOMText v) = v \<and>
   getPlainText (DOMElement t a d cs) =
     concat (map getPlainText cs) @
       (if d = ''block'' \<or> d = ''list'' \<or> t = ''BR'' then [0x0A] else [])"
  by (simp add: foldl_append_concat newline_def Let_def)


subsection \<open>Outbound selection synchronisation\<close>

lemma isRangeEqual_refl: "isRangeEqual r r"
  by (simp add: isRangeEqual_def)

lemma updateDOMSelection_fields:
  "domSelection (updateDOMSelection env nr w) = Some nr"
  "isComposing (updateDOMSelection env nr w) = isComposing w"
  "IS_FOCUSED (updateDOMSelection env nr w) = IS_FOCUSED w"
  "editor (updateDOMSelection env nr w) = editor w"
  by (simp_all add: updateDOMSelection_def Let_def split: option.split)

lemma updateDOMSelection_trace:
  "trace (updateDOMSelection env nr w) =
     trace w @ RemoveAllRanges #
       (case nr of
          None \<Rightarrow> []
        | Some new \<Rightarrow> [AddRange new, ScrollIntoView (parentElement env (startContainer new))])
       @ [SetTimeout]"
  by (simp add: updateDOMSelection_def Let_def split: option.split)

lemma nativeWrites_updateDOMSelection:
  "nativeWrites (updateDOMSelection env nr w) = Suc (nativeWrites w)"
  by (simp add: nativeWrites_def updateDOMSelection_trace split: option.split)

lemma syncSelection_eq:
  "syncSelection env w =
     (if selectionInSync env w then w
      else updateDOMSelection env
             (map_option (toDOMRange env (editor w)) (selection (editor w))) w)"
  by (simp add: syncSelection_def selectionInSync_def Let_def split: option.split)

lemma selectionInSync_updateDOMSelection:
  "selectionInSync env
     (updateDOMSelection env (map_option (toDOMRange env (editor w)) (selection (editor w))) w)"
  by (cases "selection (editor w)")
     (simp_all add: selectionInSync_def updateDOMSelection_fields isRangeEqual_refl)

lemma selectionInSync_syncSelection: "selectionInSync env (syncSelection env w)"
  by (simp add: syncSelection_eq selectionInSync_updateDOMSelection)

lemma runTimer_fields:
  "domSelection (runTimer env w) = domSelection w"
  "isComposing (runTimer env w) = isComposing w"
  "IS_FOCUSED (runTimer env w) = IS_FOCUSED w"
  "editor (runTimer env w) = editor w"
  by (simp_all add: runTimer_def Let_def split: list.split prod.split)

lemma nativeWrites_runTimer: "nativeWrites (runTimer env w) = nativeWrites w"
  by (simp add: nativeWrites_def runTimer_def Let_def split: list.split prod.split)

lemma selectionInSync_runTimer: "selectionInSync env (runTimer env w) = selectionInSync env w"
  by (simp add: selectionInSync_def runTimer_fields split: option.split)

lemma nativeWrites_syncSelection_le: "nativeWrites (syncSelection env w) \<le> Suc (nativeWrites w)"
  by (simp add: syncSelection_eq nativeWrites_updateDOMSelection)

text \<open>
  Claim C1.  Idempotence of the outbound selection sync.  If the native selection
  holds a range that \<open>isRangeEqual\<close> (undirected) relates to the projection of the
  current logical selection, one pass changes nothing and issues no request.  A
  second pass right after a first one changes nothing either, also when the first
  pass's timer has fired in between, so two passes in succession perform at most one
  native-selection write.
\<close>

theorem syncSelection_idempotent:
  "(domSelection w = Some (Some r) \<and> selection (editor w) = Some s \<and>
      isRangeEqual r (toDOMRange env (editor w) s)
      \<longrightarrow> syncSelection env w = w \<and> nativeWrites (syncSelection env w) = nativeWrites w) \<and>
   syncSelection env (syncSelection env w) = syncSelection env w \<and>
   syncSelection env (runTimer env (syncSelection env w)) = runTimer env (syncSelection env w) \<and>
   nativeWrites (syncSelection env (syncSelection env w)) \<le> nativeWrites w + 1 \<and>
   nativeWrites (syncSelection env (runTimer env (syncSelection env w))) \<le> nativeWrites w + 1"
proof -
  have noop: "syncSelection env w = w"
    if "domSelection w = Some (Some r)" "selection (editor w) = Some s"
      "isRangeEqual r (toDOMRange env (editor w) s)"
    using that by (simp add: syncSelection_def)
  have twice: "syncSelection env (syncSelection env w) = syncSelection env w"
    using selectionInSync_syncSelection [of env w]
    by (simp add: syncSelection_eq [of env "syncSelection env w"])
  have timer: "syncSelection env (runTimer env (syncSelection env w)) = runTimer env (syncSelection env w)"
    using selectionInSync_syncSelection [of env w]
    by (simp add: syncSelection_eq [of env "runTimer env (syncSelection env w)"]
        selectionInSync_runTimer)
  have bound: "nativeWrites (syncSelection env w) \<le> nativeWrites w + 1"
    using nativeWrites_syncSelection_le [of env w] by simp
  show ?thesis
    using noop twice timer bound by (simp add: nativeWrites_runTimer)
qed


theorem syncSelection_idempotent_witness:
  "domSelection exampleWorld =
     Some (Some \<lparr>startContainer = 11, startOffset = 2, endContainer = 11, endOffset = 0\<rparr>) \<and>
   selection (editor exampleWorld) =
     Some \<lparr>anchor = \<lparr>path = [0, 0], offset = 0\<rparr>, focus = \<lparr>path = [0, 0], offset = 2\<rparr>\<rparr> \<and>
   isRangeEqual \<lparr>startContainer = 11, startOffset = 2, endContainer = 11, endOffset = 0\<rparr>
     (toDOMRange exampleEnv (editor exampleWorld)
        \<lparr>anchor = \<lparr>path = [0, 0], offset = 0\<rparr>, focus = \<lparr>path = [0, 0], offset = 2\<rparr>\<rparr>) \<and>
   syncSelection exampleEnv exampleWorld = exampleWorld \<and>
   nativeWrites (syncSelection exampleEnv exampleWorld) = 0 \<and>
   nativeWrites (syncSelection exampleEnv (exampleWorld\<lparr>domSelection := Some None\<rparr>)) = 1 \<and>
   nativeWrites (syncSelection exampleEnv
      (syncSelection exampleEnv (exampleWorld\<lparr>domSelection := Some None\<rparr>))) = 1"
  using syncSelection_idempotent
    [of exampleWorld "\<lparr>startContainer = 11, startOffset = 2, endContainer = 11, endOffset = 0\<rparr>"
        "\<lparr>anchor = \<lparr>path = [0, 0], offset = 0\<rparr>, focus = \<lparr>path = [0, 0], offset = 2\<rparr>\<rparr>"
        exampleEnv]
  by (simp add: exampleWorld_def exampleEnv_def isRangeEqual_def refOfPath_def nativeWrites_def
      syncSelection_def updateDOMSelection_def Let_def)


subsection \<open>Click on a void node\<close>

lemma descend_append:
  "descend n (p @ q) = (case descend n p of None \<Rightarrow> None | Some m \<Rightarrow> descend m q)"
  by (induction n p rule: descend.induct) auto

lemma descend_first_path_prefix:
  "\<exists>m. descend n (take k (first_path n)) = Some m \<and> first_path m = drop k (first_path n)"
proof (induction n arbitrary: k rule: first_path.induct)
  case (3 t c cs)
  show ?case
  proof (cases k)
    case 0
    then show ?thesis by simp
  next
    case (Suc k')
    from 3 [of k'] show ?thesis using Suc by auto
  qed
qed simp_all

lemma void_walk_inside:
  assumes "descend (Element t cs) pv = Some (Element ty kids)" "pv \<noteq> []"
    "iv (Element ty kids)" "q \<noteq> []"
  shows "void_walk iv cs pre (pv @ q) \<noteq> None"
  using assms(1,2)
proof (induction pv arbitrary: t cs pre)
  case Nil
  then show ?case by simp
next
  case (Cons i r)
  from Cons.prems(1) have i: "i < length cs" and d: "descend (cs ! i) r = Some (Element ty kids)"
    by (auto split: if_splits)
  show ?case
  proof (cases "cs ! i")
    case (Text s m)
    with d have "r = []" by (cases r) auto
    with d Text show ?thesis by simp
  next
    case (Element t' kids')
    show ?thesis
    proof (cases "iv (Element t' kids')")
      case True
      with i Element assms(4) show ?thesis by simp
    next
      case False
      have "r \<noteq> []"
      proof
        assume "r = []"
        with d Element have "Element t' kids' = Element ty kids" by simp
        with False assms(3) show False by simp
      qed
      with Cons.IH [of t' kids' "pre @ [i]"] d Element
      have "void_walk iv kids' (pre @ [i]) (r @ q) \<noteq> None" by simp
      with i Element False show ?thesis by simp
    qed
  qed
qed

lemma Editor_start_on_chain:
  assumes "Node_get e pv = Some V" "Editor_start e pv = Some start"
  shows "Editor_start e (pv @ take k (first_path V)) = Some start"
proof -
  obtain m where m: "descend V (take k (first_path V)) = Some m"
    "first_path m = drop k (first_path V)"
    using descend_first_path_prefix by blast
  have get: "Node_get e (pv @ take k (first_path V)) = Some m"
    using assms(1) m(1) by (simp add: Node_get_def descend_append)
  have "descend m (first_path m) = descend V (first_path V)"
    using m descend_append [of V "take k (first_path V)" "drop k (first_path V)"] by simp
  then show ?thesis
    using assms get m(2) by (simp add: Editor_start_def split: option.splits node.splits)
qed


lemma first_path_nonempty:
  assumes "Node_get e pv = Some (Element ty kids)" "Editor_start e pv = Some start"
  shows "first_path (Element ty kids) \<noteq> []" "start = \<lparr>path = pv @ first_path (Element ty kids), offset = 0\<rparr>"
  using assms by (auto simp: Editor_start_def split: option.splits node.splits)

text \<open>
  Claim C2.  Let \<open>V\<close> be a void element of the document, at path \<open>pv\<close>.  Its own
  position is the point \<open>Editor.start\<close> gives at \<open>pv\<close>: offset 0 of the first text
  leaf of \<open>V\<close>, the one point at which a selection, whose points address leaves, can
  stand at \<open>V\<close>.  A click whose target lies in the rendered content of \<open>V\<close> (the target
  resolves to \<open>V\<close> itself, or to a node on the way from \<open>V\<close> to its first text leaf, which
  the spacer renders), on an editor that is not read-only, with the target in the
  editor and the event unhandled, returns normally, issues one select request, and
  leaves the logical selection the zero-width range at that point, whichever of these
  targets was hit; the document is unchanged.
\<close>

theorem onClick_selects_void_position:
  assumes notReadOnly: "\<not> readOnly p"
    and inEditor: "hasTarget env (editor w) (target ev)"
    and unhandled: "\<not> fst (isEventHandled ev (attr_onClick p))"
    and voidNode: "pv \<noteq> []" "Node_get (editor w) pv = Some (Element ty kids)"
      "isVoid env (Element ty kids)"
    and ownPosition: "Editor_start (editor w) pv = Some start"
    and inside: "\<exists>t k. target ev = Some t \<and>
      toSlateNode env (editor w) t = pv @ take k (first_path (Element ty kids))"
  shows "\<exists>ev' w'. onClick env p ev w = Inr (ev', w') \<and>
      selection (editor w') = Some \<lparr>anchor = start, focus = start\<rparr> \<and>
      children (editor w') = children (editor w) \<and>
      trace w' = trace w @ [Select \<lparr>anchor = start, focus = start\<rparr>] \<and>
      start = \<lparr>path = pv @ first_path (Element ty kids), offset = 0\<rparr>"
proof -
  from inside obtain t k where t: "target ev = Some t"
    and res: "toSlateNode env (editor w) t = pv @ take k (first_path (Element ty kids))"
    by blast
  obtain handled ev1 where h: "isEventHandled ev (attr_onClick p) = (handled, ev1)"
    by (cases "isEventHandled ev (attr_onClick p)")
  with unhandled have nh: "\<not> handled" by simp
  have t1: "target ev1 = Some t"
    using h t by (auto simp: isEventHandled_def Let_def split: option.splits)
  have st: "Editor_start (editor w) (toSlateNode env (editor w) t) = Some start"
    unfolding res using voidNode(2) ownPosition by (rule Editor_start_on_chain)
  have ne: "first_path (Element ty kids) \<noteq> []"
    and sp: "start = \<lparr>path = pv @ first_path (Element ty kids), offset = 0\<rparr>"
    using first_path_nonempty [OF voidNode(2) ownPosition] by simp_all
  have "void_walk (isVoid env) (children (editor w)) [] (pv @ first_path (Element ty kids)) \<noteq> None"
    using voidNode ne by (intro void_walk_inside [where t = "[]"]) (simp_all add: Node_get_def)
  then have vd: "Editor_void (isVoid env) (editor w) (path start) \<noteq> None"
    by (simp add: Editor_void_def sp)
  have "onClick env p ev w = Inr (ev1, Transforms_select (Editor_range_point start) w)"
    using notReadOnly inEditor h nh t1 st vd by (simp add: onClick_def)
  then show ?thesis
    using sp by (simp add: Transforms_select_def Editor_range_point_def)
qed

theorem onClick_selects_void_position_witness:
  "\<exists>ev' w'. onClick exampleEnv exampleProps exampleEvent exampleWorld = Inr (ev', w') \<and>
      selection (editor w') =
        Some \<lparr>anchor = \<lparr>path = [1, 0], offset = 0\<rparr>, focus = \<lparr>path = [1, 0], offset = 0\<rparr>\<rparr>"
proof -
  have 1: "\<not> readOnly exampleProps" by (simp add: exampleProps_def)
  have 2: "hasTarget exampleEnv (editor exampleWorld) (target exampleEvent)"
    by (simp add: hasTarget_def exampleEnv_def exampleEvent_def)
  have 3: "\<not> fst (isEventHandled exampleEvent (attr_onClick exampleProps))"
    by (simp add: isEventHandled_def exampleProps_def)
  have 4: "[1::nat] \<noteq> []" by simp
  have 5: "Node_get (editor exampleWorld) [1] = Some (Element ''image'' [Text [] []])"
    by (simp add: Node_get_def exampleWorld_def exampleDoc_def)
  have 6: "isVoid exampleEnv (Element ''image'' [Text [] []])"
    by (simp add: exampleEnv_def)
  have 7: "Editor_start (editor exampleWorld) [1] = Some \<lparr>path = [1, 0], offset = 0\<rparr>"
    by (simp add: Editor_start_def Node_get_def exampleWorld_def exampleDoc_def)
  have 8: "\<exists>t k. target exampleEvent = Some t \<and>
      toSlateNode exampleEnv (editor exampleWorld) t =
        [1] @ take k (first_path (Element ''image'' [Text [] []]))"
    by (rule exI [of _ 21], rule exI [of _ 1]) (simp add: exampleEvent_def exampleEnv_def)
  from onClick_selects_void_position [OF 1 2 3 4 5 6 7 8] show ?thesis by blast
qed


subsection \<open>The clipboard fragment codec\<close>

lemma foldl_attach_skip:
  "\<forall>n\<in>set xs. \<not> nonEmptyText n \<Longrightarrow>
   foldl (\<lambda>attach (i, n). if nonEmptyText n then Some i else attach) a (enumerate k xs) = a"
  by (induction xs arbitrary: k a) simp_all

lemma enumerate_split:
  assumes "i < length cs"
  shows "enumerate 0 cs = enumerate 0 (take i cs) @ (i, cs ! i) # enumerate (Suc i) (drop (Suc i) cs)"
proof -
  have "cs = take i cs @ cs ! i # drop (Suc i) cs"
    using assms by (simp add: id_take_nth_drop)
  then have "enumerate 0 cs = enumerate 0 (take i cs @ cs ! i # drop (Suc i) cs)" by simp
  also have "\<dots> = enumerate 0 (take i cs) @ enumerate (0 + length (take i cs)) (cs ! i # drop (Suc i) cs)"
    by (rule enumerate_append_eq)
  finally show ?thesis using assms by (simp add: min_def)
qed

lemma chooseAttach_empty: "chooseAttach [] = None"
  by (simp add: chooseAttach_def)

lemma chooseAttach_none_nonempty:
  "cs \<noteq> [] \<Longrightarrow> \<forall>n\<in>set cs. \<not> nonEmptyText n \<Longrightarrow> chooseAttach cs = Some 0"
  by (simp add: chooseAttach_def foldl_attach_skip)

lemma chooseAttach_last:
  assumes "i < length cs" "nonEmptyText (cs ! i)"
    "\<forall>j. i < j \<and> j < length cs \<longrightarrow> \<not> nonEmptyText (cs ! j)"
  shows "chooseAttach cs = Some i"
proof -
  have tail: "\<forall>n\<in>set (drop (Suc i) cs). \<not> nonEmptyText n"
  proof
    fix n assume "n \<in> set (drop (Suc i) cs)"
    then obtain k where "k < length (drop (Suc i) cs)" "n = drop (Suc i) cs ! k"
      by (auto simp: in_set_conv_nth)
    then have "n = cs ! (Suc i + k)" "Suc i + k < length cs" by auto
    with assms(3) show "\<not> nonEmptyText n" by simp
  qed
  show ?thesis
    unfolding chooseAttach_def enumerate_split [OF assms(1)]
    using assms(2) by (simp add: foldl_attach_skip [OF tail])
qed

lemma dom_get_Cons: "dom_get ns (j # q) = (if j < length ns then node_get (ns ! j) q else None)"
  by (cases q) (simp_all add: node_get_def)

lemma findFirst_sound:
  "findFirst_node P n = Some p \<Longrightarrow> \<exists>m. node_get n p = Some m \<and> P m"
  "findFirst_from P i ns = Some p \<Longrightarrow>
     \<exists>j q m. p = (i + j) # q \<and> j < length ns \<and> node_get (ns ! j) q = Some m \<and> P m"
proof (induction P n and P i ns arbitrary: p and p rule: findFirst_node_findFirst_from.induct)
  case (1 P t a d cs)
  show ?case
  proof (cases "P (DOMElement t a d cs)")
    case True
    with 1 show ?thesis by (simp add: node_get_def)
  next
    case False
    with 1 obtain j q m where "p = (0 + j) # q" "j < length cs" "node_get (cs ! j) q = Some m" "P m"
      by fastforce
    then show ?thesis by (simp add: node_get_def dom_get_Cons)
  qed
next
  case (2 P v)
  then show ?case by (simp add: node_get_def split: if_splits)
next
  case (3 P c)
  then show ?case by (simp add: node_get_def split: if_splits)
next
  case (4 P i)
  then show ?case by simp
next
  case (5 P i n ns)
  show ?case
  proof (cases "findFirst_node P n")
    case None
    with 5 obtain j q m where "p = (Suc i + j) # q" "j < length ns" "node_get (ns ! j) q = Some m" "P m"
      by fastforce
    then have "p = (i + Suc j) # q \<and> Suc j < length (n # ns) \<and> node_get ((n # ns) ! Suc j) q = Some m \<and> P m"
      by simp
    then show ?thesis by blast
  next
    case (Some q)
    with 5 obtain m where "node_get n q = Some m" "P m" by blast
    moreover from Some 5 have "p = i # q" by simp
    ultimately have "p = (i + 0) # q \<and> 0 < length (n # ns) \<and> node_get ((n # ns) ! 0) q = Some m \<and> P m"
      by simp
    then show ?thesis by blast
  qed
qed

lemma findFirst_complete:
  "findFirst_node P n = None \<Longrightarrow> node_get n p = Some m \<Longrightarrow> \<not> P m"
  "findFirst_from P i ns = None \<Longrightarrow> j < length ns \<Longrightarrow> node_get (ns ! j) p = Some m \<Longrightarrow> \<not> P m"
proof (induction P n and P i ns arbitrary: p m and p m j rule: findFirst_node_findFirst_from.induct)
  case (1 P t a d cs)
  from 1(2) have np: "\<not> P (DOMElement t a d cs)" and ff: "findFirst_from P 0 cs = None"
    by (simp_all split: if_splits)
  show ?case
  proof (cases p)
    case Nil
    with 1(3) np show ?thesis by (simp add: node_get_def)
  next
    case (Cons j q)
    with 1(3) have "j < length cs" "node_get (cs ! j) q = Some m"
      by (simp_all add: node_get_def dom_get_Cons split: if_splits)
    with 1(1) [OF np ff] show ?thesis by blast
  qed
next
  case (2 P v)
  then show ?case by (cases p) (simp_all add: node_get_def split: if_splits)
next
  case (3 P c)
  then show ?case by (cases p) (simp_all add: node_get_def split: if_splits)
next
  case (4 P i)
  then show ?case by simp
next
  case (5 P i n ns)
  from 5(3) have nn: "findFirst_node P n = None" and rest: "findFirst_from P (Suc i) ns = None"
    by (simp_all split: option.splits)
  show ?case
  proof (cases j)
    case 0
    with 5(5) have "node_get n p = Some m" by simp
    with 5(1) [OF nn] show ?thesis by blast
  next
    case (Suc k)
    with 5(4,5) have "k < length ns" "node_get (ns ! k) p = Some m" by simp_all
    with 5(2) [OF nn rest] show ?thesis by blast
  qed
qed

lemma querySelector_sound:
  assumes "querySelector name cs = Some p"
  shows "\<exists>n. dom_get cs p = Some n \<and> isDOMElement n \<and> getAttribute n name \<noteq> None"
proof -
  from assms findFirst_sound(2) [of "\<lambda>n. getAttribute n name \<noteq> None" 0 cs p]
  obtain j q m where "p = j # q" "j < length cs" "node_get (cs ! j) q = Some m"
    "getAttribute m name \<noteq> None"
    by (auto simp: querySelector_def)
  moreover from this have "isDOMElement m" by (cases m) (simp_all add: getAttribute_def)
  ultimately show ?thesis by (simp add: dom_get_Cons)
qed

lemma querySelector_complete:
  assumes "querySelector name cs = None" "dom_get cs p = Some n"
  shows "getAttribute n name = None"
proof (cases p)
  case Nil
  with assms(2) show ?thesis by simp
next
  case (Cons j q)
  with assms(2) have "j < length cs" "node_get (cs ! j) q = Some n"
    by (simp_all add: dom_get_Cons split: if_splits)
  with findFirst_complete(2) [of "\<lambda>n. getAttribute n name \<noteq> None" 0 cs j q n] assms(1)
  show ?thesis by (simp add: querySelector_def)
qed


lemma findFirst_from_Some:
  "findFirst_from P i ns = Some p \<Longrightarrow>
     \<exists>j p'. p = (i + j) # p' \<and> j < length ns \<and> findFirst_node P (ns ! j) = Some p' \<and>
       (\<forall>k<j. findFirst_node P (ns ! k) = None)"
proof (induction ns arbitrary: i)
  case Nil
  then show ?case by simp
next
  case (Cons n ns)
  show ?case
  proof (cases "findFirst_node P n")
    case None
    with Cons.prems have "findFirst_from P (Suc i) ns = Some p" by simp
    from Cons.IH [OF this] obtain j p' where j: "p = (Suc i + j) # p'" "j < length ns"
      "findFirst_node P (ns ! j) = Some p'" "\<forall>k<j. findFirst_node P (ns ! k) = None"
      by blast
    have "\<forall>k<Suc j. findFirst_node P ((n # ns) ! k) = None"
      using None j(4) by (auto simp: less_Suc_eq_0_disj)
    with j(1,2,3) have "p = (i + Suc j) # p' \<and> Suc j < length (n # ns) \<and>
        findFirst_node P ((n # ns) ! Suc j) = Some p' \<and>
        (\<forall>k<Suc j. findFirst_node P ((n # ns) ! k) = None)"
      by simp
    then show ?thesis by blast
  next
    case (Some p')
    with Cons.prems have "p = (i + 0) # p' \<and> 0 < length (n # ns) \<and>
        findFirst_node P ((n # ns) ! 0) = Some p' \<and>
        (\<forall>k<0. findFirst_node P ((n # ns) ! k) = None)"
      by simp
    then show ?thesis by blast
  qed
qed

lemma findFirst_node_first:
  "findFirst_node P n = Some p \<Longrightarrow> (q, p) \<in> documentOrder \<Longrightarrow>
     node_get n q = Some m \<Longrightarrow> \<not> P m"
proof (induction n arbitrary: p q m)
  case (DOMText v)
  then show ?case by (simp add: documentOrder_def split: if_splits)
next
  case (DOMComment c)
  then show ?case by (simp add: documentOrder_def split: if_splits)
next
  case (DOMElement t a d cs)
  show ?case
  proof (cases "P (DOMElement t a d cs)")
    case True
    with DOMElement.prems show ?thesis by (simp add: documentOrder_def)
  next
    case False
    with DOMElement.prems(1) have "findFirst_from P 0 cs = Some p" by simp
    from findFirst_from_Some [OF this] obtain j p' where j: "p = j # p'" "j < length cs"
      "findFirst_node P (cs ! j) = Some p'" "\<forall>k<j. findFirst_node P (cs ! k) = None"
      by auto
    show ?thesis
    proof (cases q)
      case Nil
      with DOMElement.prems(3) False show ?thesis by (simp add: node_get_def)
    next
      case (Cons k q')
      with DOMElement.prems(3) have k: "k < length cs" "node_get (cs ! k) q' = Some m"
        by (simp_all add: node_get_def dom_get_Cons split: if_splits)
      from DOMElement.prems(2) Cons j(1) have "k < j \<or> (k = j \<and> (q', p') \<in> documentOrder)"
        by (simp add: documentOrder_def)
      then show ?thesis
      proof
        assume "k < j"
        with j(4) have "findFirst_node P (cs ! k) = None" by simp
        from findFirst_complete(1) [OF this k(2)] show ?thesis .
      next
        assume kj: "k = j \<and> (q', p') \<in> documentOrder"
        have "cs ! j \<in> set cs" using j(2) by simp
        from DOMElement.IH [OF this j(3)] kj k(2) show ?thesis by blast
      qed
    qed
  qed
qed

lemma querySelector_first:
  assumes "querySelector name cs = Some p" "(q, p) \<in> documentOrder"
    "dom_get cs q = Some n"
  shows "getAttribute n name = None"
proof -
  let ?P = "\<lambda>n. getAttribute n name \<noteq> None"
  from assms(1) have "findFirst_from ?P 0 cs = Some p" by (simp add: querySelector_def)
  from findFirst_from_Some [OF this] obtain j p' where j: "p = j # p'" "j < length cs"
    "findFirst_node ?P (cs ! j) = Some p'" "\<forall>k<j. findFirst_node ?P (cs ! k) = None"
    by auto
  from assms(3) obtain k q' where q: "q = k # q'" by (cases q) simp_all
  with assms(3) have k: "k < length cs" "node_get (cs ! k) q' = Some n"
    by (simp_all add: dom_get_Cons split: if_splits)
  from assms(2) q j(1) have "k < j \<or> (k = j \<and> (q', p') \<in> documentOrder)"
    by (simp add: documentOrder_def)
  then show ?thesis
  proof
    assume "k < j"
    with j(4) have "findFirst_node ?P (cs ! k) = None" by simp
    from findFirst_complete(1) [OF this k(2)] show ?thesis by simp
  next
    assume "k = j \<and> (q', p') \<in> documentOrder"
    with findFirst_node_first [OF j(3) _ ] k(2) show ?thesis by blast
  qed
qed


lemma attachFragment_Some_iff:
  "attachFragment enc contents attach \<noteq> None \<longleftrightarrow>
     (\<exists>n. attachNode contents attach = Some n \<and> isDOMElement n)"
proof (cases "attachNode contents attach")
  case None
  then show ?thesis by (simp add: attachFragment_def)
next
  case (Some n)
  then show ?thesis by (cases n) (simp_all add: attachFragment_def)
qed


lemma setFragmentData_unfold:
  assumes "selection (editor w) = Some sel"
    "\<not> (Range_isCollapsed sel \<and>
       Editor_void (isVoid env) (editor w) (path (fst (Range_edges sel))) = None)"
    "attachFragment (btoa env (encodeURIComponent env (JSON_stringify env (fragment env (editor w) sel))))
       (fst (cloneSelection env (editor w) sel)) (snd (cloneSelection env (editor w) sel)) = Some contents'"
  shows "setFragmentData env dt w =
      Inr (setData (setData (setData dt ''application/x-slate-fragment''
               (btoa env (encodeURIComponent env (JSON_stringify env (fragment env (editor w) sel)))))
             ''text/html'' (innerHTML env contents'))
             ''text/plain'' (getPlainText (DOMElement ''DIV'' [] (createdDisplay env ''div'') contents')),
           w\<lparr>trace := trace w @
         [SetData ''application/x-slate-fragment''
            (btoa env (encodeURIComponent env (JSON_stringify env (fragment env (editor w) sel)))),
          SetData ''text/html'' (innerHTML env contents'),
          SetData ''text/plain'' (getPlainText (DOMElement ''DIV'' [] (createdDisplay env ''div'') contents'))]\<rparr>)"
  using assms by (auto simp: setFragmentData_def Let_def case_prod_beta)

lemma setFragmentData_cases:
  "setFragmentData env dt w = Inr (dt, w) \<or>
   setFragmentData env dt w = Inl (TypeError, (dt, w)) \<or>
   (\<exists>dt' a b c. setFragmentData env dt w =
      Inr (dt', w\<lparr>trace := trace w @
        [SetData ''application/x-slate-fragment'' a, SetData ''text/html'' b,
         SetData ''text/plain'' c]\<rparr>))"
  by (auto simp: setFragmentData_def Let_def split: option.splits prod.splits)

lemma stripZeroWidth_kind:
  "isDOMElement (stripZeroWidth n) = isDOMElement n"
  "isDOMText (stripZeroWidth n) = isDOMText n"
  "isDOMComment (stripZeroWidth n) = isDOMComment n"
  by (cases n; simp split: option.split)+

lemma dom_get_strip:
  "\<not> attributeAbove ''data-slate-zero-width'' cs p \<Longrightarrow>
     dom_get (map stripZeroWidth cs) p = map_option stripZeroWidth (dom_get cs p)"
proof (induction cs p rule: dom_get.induct)
  case (1 cs)
  then show ?case by simp
next
  case (2 cs i)
  then show ?case by simp
next
  case (3 cs i j p)
  show ?case
  proof (cases "i < length cs")
    case False
    then show ?thesis by simp
  next
    case True
    show ?thesis
    proof (cases "cs ! i")
      case (DOMText v)
      with True show ?thesis by simp
    next
      case (DOMComment c)
      with True show ?thesis by simp
    next
      case (DOMElement t a d kids)
      with True "3.prems" have no: "map_of a ''data-slate-zero-width'' = None"
        and below: "\<not> attributeAbove ''data-slate-zero-width'' kids (j # p)"
        by simp_all
      from "3.IH" [OF True DOMElement below] True DOMElement no show ?thesis by simp
    qed
  qed
qed

lemma removeZeroWidth_node:
  assumes "attachNode cs a = Some n"
  shows "attachNode (fst (removeZeroWidth cs a)) (snd (removeZeroWidth cs a)) =
     Some (case a of Some (Attached p) \<Rightarrow> stripZeroWidth n | _ \<Rightarrow> n)"
proof (cases a)
  case None
  with assms show ?thesis by (simp add: attachNode_def)
next
  case (Some r)
  show ?thesis
  proof (cases r)
    case (Detached m)
    with Some assms show ?thesis by (simp add: attachNode_def removeZeroWidth_def)
  next
    case (Attached p)
    with Some assms have g: "dom_get cs p = Some n" by (simp add: attachNode_def)
    show ?thesis
    proof (cases "attributeAbove ''data-slate-zero-width'' cs p")
      case True
      with Some Attached g show ?thesis by (simp add: attachNode_def removeZeroWidth_def)
    next
      case False
      from dom_get_strip [OF False] g Some Attached False show ?thesis
        by (simp add: attachNode_def removeZeroWidth_def)
    qed
  qed
qed

lemma wrapTextAttach_node:
  assumes "attachNode cs a = Some n"
  shows "attachNode (fst (wrapTextAttach env cs a)) (snd (wrapTextAttach env cs a)) =
     Some (if isDOMText n then spanFor env n else n)"
  using assms by (cases n) (simp_all add: wrapTextAttach_def Let_def attachNode_def)

lemma cloneSelection_eq:
  "cloneSelection env e sel =
     wrapTextAttach env
       (fst (removeZeroWidth (currentClone env e sel)
          (attachAfterClone (Editor_void (isVoid env) e (path (fst (Range_edges sel))) \<noteq> None)
             (Editor_void (isVoid env) e (path (snd (Range_edges sel))) \<noteq> None)
             (firstClone env e sel) (currentClone env e sel))))
       (snd (removeZeroWidth (currentClone env e sel)
          (attachAfterClone (Editor_void (isVoid env) e (path (fst (Range_edges sel))) \<noteq> None)
             (Editor_void (isVoid env) e (path (snd (Range_edges sel))) \<noteq> None)
             (firstClone env e sel) (currentClone env e sel))))"
  by (simp add: cloneSelection_def currentClone_def firstClone_def Let_def case_prod_beta
      cong: option.case_cong)

lemma foldl_attach_range:
  "\<exists>b. foldl (\<lambda>attach (i, n). if nonEmptyText n then Some i else attach) (Some a) (enumerate k xs) = Some b \<and>
       (b = a \<or> (k \<le> b \<and> b < k + length xs))"
proof (induction xs arbitrary: a k)
  case Nil
  then show ?case by simp
next
  case (Cons x xs)
  show ?case
  proof (cases "nonEmptyText x")
    case True
    from Cons [of k "Suc k"] True show ?thesis by auto
  next
    case False
    from Cons [of a "Suc k"] False show ?thesis by auto
  qed
qed

lemma chooseAttach_range:
  assumes "cs \<noteq> []"
  shows "\<exists>i. chooseAttach cs = Some i \<and> i < length cs"
  using assms foldl_attach_range [of 0 0 cs] by (auto simp: chooseAttach_def)

lemma attachAfterClone_node:
  assumes "stockRendered env e sel"
  shows "\<exists>n. attachNode (currentClone env e sel)
          (attachAfterClone (Editor_void (isVoid env) e (path (fst (Range_edges sel))) \<noteq> None)
             (Editor_void (isVoid env) e (path (snd (Range_edges sel))) \<noteq> None)
             (firstClone env e sel) (currentClone env e sel)) = Some n \<and> \<not> isDOMComment n"
proof (cases "Editor_void (isVoid env) e (path (fst (Range_edges sel))) \<noteq> None")
  case True
  with assms obtain q where q: "querySelector ''data-slate-spacer'' (currentClone env e sel) = Some q"
    by (auto simp: stockRendered_def startsInVoid_def)
  from querySelector_sound [OF q] obtain n where
    "dom_get (currentClone env e sel) q = Some n" "isDOMElement n" by blast
  with True q show ?thesis
    by (cases n) (simp_all add: attachAfterClone_def attachNode_def)
next
  case False
  with assms have ne: "firstClone env e sel \<noteq> []"
    and nc: "list_all (\<lambda>n. \<not> isDOMComment n) (firstClone env e sel)"
    by (simp_all add: stockRendered_def startsInVoid_def)
  from chooseAttach_range [OF ne] obtain i where
    i: "chooseAttach (firstClone env e sel) = Some i" "i < length (firstClone env e sel)" by blast
  from nc i(2) have c: "\<not> isDOMComment (firstClone env e sel ! i)"
    by (simp add: list_all_length)
  show ?thesis
  proof (cases "Editor_void (isVoid env) e (path (snd (Range_edges sel))) \<noteq> None")
    case True
    with False i c show ?thesis by (simp add: attachAfterClone_def attachNode_def)
  next
    case False
    then have "Editor_void (isVoid env) e (path (snd (Range_edges sel))) = None" by blast
    then have "currentClone env e sel = firstClone env e sel" by (simp add: currentClone_def)
    with False \<open>\<not> Editor_void (isVoid env) e (path (fst (Range_edges sel))) \<noteq> None\<close> i c
    show ?thesis by (simp add: attachAfterClone_def attachNode_def)
  qed
qed

lemma cloneSelection_element:
  assumes "stockRendered env e sel"
  shows "\<exists>n. attachNode (fst (cloneSelection env e sel)) (snd (cloneSelection env e sel)) = Some n \<and>
     isDOMElement n"
proof -
  let ?a1 = "attachAfterClone (Editor_void (isVoid env) e (path (fst (Range_edges sel))) \<noteq> None)
             (Editor_void (isVoid env) e (path (snd (Range_edges sel))) \<noteq> None)
             (firstClone env e sel) (currentClone env e sel)"
  let ?r = "removeZeroWidth (currentClone env e sel) ?a1"
  from attachAfterClone_node [OF assms] obtain n where
    n: "attachNode (currentClone env e sel) ?a1 = Some n" "\<not> isDOMComment n" by blast
  let ?m = "case ?a1 of Some (Attached p) \<Rightarrow> stripZeroWidth n | _ \<Rightarrow> n"
  have m: "attachNode (fst ?r) (snd ?r) = Some ?m"
    by (rule removeZeroWidth_node [OF n(1)])
  have mc: "\<not> isDOMComment ?m"
    using n(2) by (simp add: stripZeroWidth_kind split: option.split attach_ref.split)
  have "attachNode (fst (cloneSelection env e sel)) (snd (cloneSelection env e sel)) =
      Some (if isDOMText ?m then spanFor env ?m else ?m)"
    by (subst (1 2) cloneSelection_eq) (rule wrapTextAttach_node [OF m])
  moreover have "isDOMElement (if isDOMText ?m then spanFor env ?m else ?m)"
    using mc by (cases ?m) (simp_all add: spanFor_def)
  ultimately show ?thesis by blast
qed

lemma setFragmentData_stock:
  assumes "selection (editor w) = Some sel"
    "\<not> nothingToCopy env (editor w)"
    "stockRendered env (editor w) sel"
  shows "\<exists>contents'.
     attachFragment (btoa env (encodeURIComponent env (JSON_stringify env (fragment env (editor w) sel))))
       (fst (cloneSelection env (editor w) sel)) (snd (cloneSelection env (editor w) sel)) = Some contents' \<and>
     setFragmentData env dt w =
      Inr (setData (setData (setData dt ''application/x-slate-fragment''
               (btoa env (encodeURIComponent env (JSON_stringify env (fragment env (editor w) sel)))))
             ''text/html'' (innerHTML env contents'))
             ''text/plain'' (getPlainText (DOMElement ''DIV'' [] (createdDisplay env ''div'') contents')),
           w\<lparr>trace := trace w @
         [SetData ''application/x-slate-fragment''
            (btoa env (encodeURIComponent env (JSON_stringify env (fragment env (editor w) sel)))),
          SetData ''text/html'' (innerHTML env contents'),
          SetData ''text/plain'' (getPlainText (DOMElement ''DIV'' [] (createdDisplay env ''div'') contents'))]\<rparr>)"
proof -
  let ?enc = "btoa env (encodeURIComponent env (JSON_stringify env (fragment env (editor w) sel)))"
  from assms(1,2) have go: "\<not> (Range_isCollapsed sel \<and>
       Editor_void (isVoid env) (editor w) (path (fst (Range_edges sel))) = None)"
    by (simp add: nothingToCopy_def)
  from cloneSelection_element [OF assms(3)] attachFragment_Some_iff
  have "attachFragment ?enc (fst (cloneSelection env (editor w) sel))
          (snd (cloneSelection env (editor w) sel)) \<noteq> None"
    by blast
  then obtain c' where c': "attachFragment ?enc (fst (cloneSelection env (editor w) sel))
          (snd (cloneSelection env (editor w) sel)) = Some c'" by blast
  from setFragmentData_unfold [OF assms(1) go c'] c' show ?thesis by blast
qed


lemma exampleWorld_selection: "selection (editor exampleWorld) = Some \<lparr>anchor = \<lparr>path = [0, 0], offset = 0\<rparr>, focus = \<lparr>path = [0, 0], offset = 2\<rparr>\<rparr>"
  by (simp add: exampleWorld_def)

lemma example_edges: "Range_edges \<lparr>anchor = \<lparr>path = [0, 0], offset = 0\<rparr>, focus = \<lparr>path = [0, 0], offset = 2\<rparr>\<rparr>
   = (\<lparr>path = [0, 0], offset = 0\<rparr>, \<lparr>path = [0, 0], offset = 2\<rparr>)"
  by (simp add: Range_edges_def Range_isBackward_def Point_compare_def)


lemma example_voids:
  "\<not> startsInVoid exampleEnv (editor exampleWorld)
     \<lparr>anchor = \<lparr>path = [0, 0], offset = 0\<rparr>, focus = \<lparr>path = [0, 0], offset = 2\<rparr>\<rparr>"
  "\<not> endsInVoid exampleEnv (editor exampleWorld)
     \<lparr>anchor = \<lparr>path = [0, 0], offset = 0\<rparr>, focus = \<lparr>path = [0, 0], offset = 2\<rparr>\<rparr>"
  "firstClone exampleEnv (editor exampleWorld)
     \<lparr>anchor = \<lparr>path = [0, 0], offset = 0\<rparr>, focus = \<lparr>path = [0, 0], offset = 2\<rparr>\<rparr> =
     [DOMText [0x61, 0x62]]"
  by (simp_all add: startsInVoid_def endsInVoid_def firstClone_def example_edges Editor_void_def
      exampleWorld_def exampleDoc_def exampleEnv_def refOfPath_def)

lemma example_stockRendered:
  "stockRendered exampleEnv (editor exampleWorld)
     \<lparr>anchor = \<lparr>path = [0, 0], offset = 0\<rparr>, focus = \<lparr>path = [0, 0], offset = 2\<rparr>\<rparr>"
  by (simp add: stockRendered_def example_voids)

lemma example_cloneSelection: "cloneSelection exampleEnv (editor exampleWorld)
     \<lparr>anchor = \<lparr>path = [0, 0], offset = 0\<rparr>, focus = \<lparr>path = [0, 0], offset = 2\<rparr>\<rparr> =
     ([DOMElement ''SPAN'' [(''style'', js ''white-space: pre;'')] [] [DOMText [0x61, 0x62]]],
      Some (Attached [0]))"
  by (simp add: cloneSelection_def example_edges Editor_void_def exampleWorld_def exampleDoc_def exampleEnv_def
     refOfPath_def attachAfterClone_def chooseAttach_def nonEmptyText_def trim_def isWhiteSpace_def
     removeZeroWidth_def wrapTextAttach_def attachNode_def spanFor_def)

lemma example_setFragmentData:
  "setFragmentData exampleEnv [] exampleWorld =
     Inr ([(''application/x-slate-fragment'', [0x61, 0x62]), (''text/html'', [0x61, 0x62]),
           (''text/plain'', [0x61, 0x62])],
          exampleWorld\<lparr>trace :=
            [SetData ''application/x-slate-fragment'' [0x61, 0x62],
             SetData ''text/html'' [0x61, 0x62], SetData ''text/plain'' [0x61, 0x62]]\<rparr>)"
  by (simp add: setFragmentData_def exampleWorld_selection example_edges Range_isCollapsed_def
      example_cloneSelection attachFragment_def attachNode_def Let_def)
     (simp add: exampleWorld_def exampleEnv_def exampleDoc_def newline_def setData_def)

lemma example_void_edges:
  "Range_edges \<lparr>anchor = \<lparr>path = [1, 0], offset = 0\<rparr>, focus = \<lparr>path = [1, 0], offset = 0\<rparr>\<rparr> =
     (\<lparr>path = [1, 0], offset = 0\<rparr>, \<lparr>path = [1, 0], offset = 0\<rparr>)"
  by (simp add: Range_edges_def Range_isBackward_def Point_compare_def)

lemma example_void_clone:
  "startsInVoid exampleEnv \<lparr>children = exampleDoc, selection = s\<rparr>
     \<lparr>anchor = \<lparr>path = [1, 0], offset = 0\<rparr>, focus = \<lparr>path = [1, 0], offset = 0\<rparr>\<rparr>"
  "currentClone exampleEnv \<lparr>children = exampleDoc, selection = s\<rparr>
     \<lparr>anchor = \<lparr>path = [1, 0], offset = 0\<rparr>, focus = \<lparr>path = [1, 0], offset = 0\<rparr>\<rparr> =
     [DOMElement ''DIV'' [(''data-slate-void'', js ''true'')] ''block''
        [DOMElement ''DIV'' [(''data-slate-spacer'', js ''true'')] ''block''
           [DOMElement ''SPAN'' [(''data-slate-zero-width'', js ''z'')] ''inline''
              [DOMText [0xFEFF]]]]]"
  unfolding startsInVoid_def currentClone_def firstClone_def example_void_edges fst_conv snd_conv
  by (simp_all add: Editor_void_def exampleDoc_def exampleEnv_def refOfPath_def)

lemma example_void_spacer:
  "querySelector ''data-slate-spacer''
     [DOMElement ''DIV'' [(''data-slate-void'', js ''true'')] ''block''
        [DOMElement ''DIV'' [(''data-slate-spacer'', js ''true'')] ''block''
           [DOMElement ''SPAN'' [(''data-slate-zero-width'', js ''z'')] ''inline''
              [DOMText [0xFEFF]]]]] = Some [0, 0]"
  by (simp add: querySelector_def getAttribute_def)

lemma example_void_copy:
  "setFragmentData exampleEnv []
     (exampleWorld\<lparr>editor := (editor exampleWorld)\<lparr>selection :=
        Some \<lparr>anchor = \<lparr>path = [1, 0], offset = 0\<rparr>, focus = \<lparr>path = [1, 0], offset = 0\<rparr>\<rparr>\<rparr>\<rparr>) =
   Inr ([(''application/x-slate-fragment'', [0x61, 0x62]), (''text/html'', []),
         (''text/plain'', [0x0A, 0x0A])],
        exampleWorld\<lparr>editor := (editor exampleWorld)\<lparr>selection :=
            Some \<lparr>anchor = \<lparr>path = [1, 0], offset = 0\<rparr>, focus = \<lparr>path = [1, 0], offset = 0\<rparr>\<rparr>\<rparr>,
          trace := [SetData ''application/x-slate-fragment'' [0x61, 0x62],
                    SetData ''text/html'' [], SetData ''text/plain'' [0x0A, 0x0A]]\<rparr>)"
  by (simp add: setFragmentData_def Range_edges_def Range_isBackward_def Point_compare_def
      Range_isCollapsed_def cloneSelection_def Editor_void_def exampleWorld_def exampleDoc_def
      exampleEnv_def attachAfterClone_def querySelector_def getAttribute_def refOfPath_def
      removeZeroWidth_def wrapTextAttach_def attachNode_def attachFragment_def js_def
      newline_def setData_def Let_def)


lemma chooseAttach_chosen:
  assumes "chosenChild cs i"
  shows "chooseAttach cs = Some i"
proof (cases "list_ex nonEmptyText cs")
  case True
  with assms have i: "i < length cs" "nonEmptyText (cs ! i)"
    and rest: "list_all (\<lambda>n. \<not> nonEmptyText n) (drop (Suc i) cs)"
    by (simp_all add: chosenChild_def)
  have "\<forall>j. i < j \<and> j < length cs \<longrightarrow> \<not> nonEmptyText (cs ! j)"
  proof (intro allI impI)
    fix j assume j: "i < j \<and> j < length cs"
    then have "cs ! j = drop (Suc i) cs ! (j - Suc i)" by simp
    moreover have "j - Suc i < length (drop (Suc i) cs)" using j by auto
    ultimately show "\<not> nonEmptyText (cs ! j)" using rest by (simp add: list_all_length)
  qed
  with i show ?thesis by (intro chooseAttach_last) simp_all
next
  case False
  with assms have "i = 0" "cs \<noteq> []" by (auto simp: chosenChild_def)
  moreover from False have "\<forall>n\<in>set cs. \<not> nonEmptyText n" by (simp add: list_ex_iff)
  ultimately show ?thesis by (simp add: chooseAttach_none_nonempty)
qed

lemma dom_update_const:
  "dom_get cs q = Some m \<Longrightarrow> dom_update (\<lambda>old. f m) cs q = dom_update f cs q"
proof (induction cs q rule: dom_get.induct)
  case (1 cs)
  then show ?case by simp
next
  case (2 cs i)
  then show ?case by (simp split: if_splits)
next
  case (3 cs i j p)
  then show ?case by (auto split: if_splits dom_node.splits)
qed

lemma cloneSelection_child:
  assumes "\<not> startsInVoid env e sel" "\<not> endsInVoid env e sel"
    "chosenChild (firstClone env e sel) i"
  shows "cloneSelection env e sel =
     wrapTextAttach env (map stripZeroWidth (firstClone env e sel)) (Some (Attached [i]))"
proof -
  from assms(1) have sv: "Editor_void (isVoid env) e (path (fst (Range_edges sel))) = None"
    unfolding startsInVoid_def by blast
  from assms(2) have ev: "Editor_void (isVoid env) e (path (snd (Range_edges sel))) = None"
    unfolding endsInVoid_def by blast
  from ev have cur: "currentClone env e sel = firstClone env e sel"
    by (simp add: currentClone_def)
  from chooseAttach_chosen [OF assms(3)]
  have a1: "attachAfterClone False False (firstClone env e sel) (firstClone env e sel) =
      Some (Attached [i])"
    by (simp add: attachAfterClone_def)
  show ?thesis
    by (subst cloneSelection_eq) (simp add: sv ev cur a1 removeZeroWidth_def)
qed

lemma attach_element_child:
  assumes "\<not> startsInVoid env e sel" "\<not> endsInVoid env e sel"
    "chosenChild (firstClone env e sel) i" "isDOMElement (firstClone env e sel ! i)"
  shows "cloneSelection env e sel =
        (map stripZeroWidth (firstClone env e sel), Some (Attached [i]))"
    and "attachFragment enc (fst (cloneSelection env e sel)) (snd (cloneSelection env e sel)) =
        Some ((map stripZeroWidth (firstClone env e sel))
                [i := withFragment enc (stripZeroWidth (firstClone env e sel ! i))])"
proof -
  from assms(3) have i: "i < length (firstClone env e sel)" by (simp add: chosenChild_def)
  from assms(4) obtain t at d kids where el: "firstClone env e sel ! i = DOMElement t at d kids"
    by (cases "firstClone env e sel ! i") simp_all
  note cs = cloneSelection_child [OF assms(1-3)]
  from i el show c: "cloneSelection env e sel =
        (map stripZeroWidth (firstClone env e sel), Some (Attached [i]))"
    by (simp add: cs wrapTextAttach_def attachNode_def split: option.split)
  show "attachFragment enc (fst (cloneSelection env e sel)) (snd (cloneSelection env e sel)) =
        Some ((map stripZeroWidth (firstClone env e sel))
                [i := withFragment enc (stripZeroWidth (firstClone env e sel ! i))])"
    unfolding c fst_conv snd_conv
    using i el
    by (simp add: attachFragment_def attachNode_def withFragment_def split: option.split)
qed

text \<open>
  Claim C4, as amended.  The node that carries the encoded fragment attribute in the
  markup \<open>setFragmentData\<close> writes.  For a selection with neither edge inside a void,
  it is the last top-level child of the clone whose text content is not blank (the
  first child when no child has such text); when that child is a bare text node, the
  code takes it out of the clone, wraps it in a new \<open>span\<close> appended to the clone, and
  the span carries the attribute.  For a selection whose start edge is void, it is
  the void's spacer: the first element of the clone, in document order, that carries
  the spacer marker; it carries the attribute at its place in the markup unless it
  sits inside a zero-width element, whose content the code replaces.
\<close>

theorem attach_choice:
  "(\<not> startsInVoid env e sel \<and> \<not> endsInVoid env e sel \<and>
    chosenChild (firstClone env e sel) i \<and> firstClone env e sel ! i = DOMText v \<longrightarrow>
      cloneSelection env e sel =
        (dom_remove (map stripZeroWidth (firstClone env e sel)) [i] @ [spanFor env (DOMText v)],
         Some (Attached [length (firstClone env e sel) - 1])) \<and>
      attachFragment enc (fst (cloneSelection env e sel)) (snd (cloneSelection env e sel)) =
        Some (dom_remove (map stripZeroWidth (firstClone env e sel)) [i] @
              [withFragment enc (spanFor env (DOMText v))])) \<and>
   (\<not> startsInVoid env e sel \<and> \<not> endsInVoid env e sel \<and>
    chosenChild (firstClone env e sel) i \<and> isDOMElement (firstClone env e sel ! i) \<longrightarrow>
      cloneSelection env e sel =
        (map stripZeroWidth (firstClone env e sel), Some (Attached [i])) \<and>
      attachFragment enc (fst (cloneSelection env e sel)) (snd (cloneSelection env e sel)) =
        Some ((map stripZeroWidth (firstClone env e sel))
                [i := withFragment enc (stripZeroWidth (firstClone env e sel ! i))])) \<and>
   (startsInVoid env e sel \<and>
    querySelector ''data-slate-spacer'' (currentClone env e sel) = Some q \<longrightarrow>
      (\<exists>n. dom_get (currentClone env e sel) q = Some n \<and> isDOMElement n \<and>
           getAttribute n ''data-slate-spacer'' \<noteq> None \<and>
           (\<forall>q' n'. (q', q) \<in> documentOrder \<and> dom_get (currentClone env e sel) q' = Some n' \<longrightarrow>
              getAttribute n' ''data-slate-spacer'' = None) \<and>
           attachNode (fst (cloneSelection env e sel)) (snd (cloneSelection env e sel)) =
             Some (stripZeroWidth n) \<and>
           (\<not> attributeAbove ''data-slate-zero-width'' (currentClone env e sel) q \<longrightarrow>
              cloneSelection env e sel =
                (map stripZeroWidth (currentClone env e sel), Some (Attached q)) \<and>
              attachFragment enc (fst (cloneSelection env e sel)) (snd (cloneSelection env e sel)) =
                Some (dom_update (withFragment enc)
                        (map stripZeroWidth (currentClone env e sel)) q))))"
proof (intro conjI impI)
  assume a: "\<not> startsInVoid env e sel \<and> \<not> endsInVoid env e sel \<and>
    chosenChild (firstClone env e sel) i \<and> firstClone env e sel ! i = DOMText v"
  then have i: "i < length (firstClone env e sel)" by (simp add: chosenChild_def)
  from a have cs: "cloneSelection env e sel =
     wrapTextAttach env (map stripZeroWidth (firstClone env e sel)) (Some (Attached [i]))"
    by (intro cloneSelection_child) simp_all
  from a i show c: "cloneSelection env e sel =
        (dom_remove (map stripZeroWidth (firstClone env e sel)) [i] @ [spanFor env (DOMText v)],
         Some (Attached [length (firstClone env e sel) - 1]))"
    by (simp add: cs wrapTextAttach_def attachNode_def Let_def min_def)
  from i have l: "length (dom_remove (map stripZeroWidth (firstClone env e sel)) [i]) =
      length (firstClone env e sel) - 1"
    by (simp add: min_def)
  show "attachFragment enc (fst (cloneSelection env e sel)) (snd (cloneSelection env e sel)) =
        Some (dom_remove (map stripZeroWidth (firstClone env e sel)) [i] @
              [withFragment enc (spanFor env (DOMText v))])"
    unfolding c fst_conv snd_conv
    using l [symmetric]
    by (simp add: attachFragment_def attachNode_def spanFor_def withFragment_def
        nth_append del: dom_remove.simps)
next
  assume a: "\<not> startsInVoid env e sel \<and> \<not> endsInVoid env e sel \<and>
    chosenChild (firstClone env e sel) i \<and> isDOMElement (firstClone env e sel ! i)"
  then show "cloneSelection env e sel =
        (map stripZeroWidth (firstClone env e sel), Some (Attached [i]))"
    by (intro attach_element_child) simp_all
  from a show "attachFragment enc (fst (cloneSelection env e sel)) (snd (cloneSelection env e sel)) =
        Some ((map stripZeroWidth (firstClone env e sel))
                [i := withFragment enc (stripZeroWidth (firstClone env e sel ! i))])"
    by (intro attach_element_child) simp_all
next
  assume a: "startsInVoid env e sel \<and>
    querySelector ''data-slate-spacer'' (currentClone env e sel) = Some q"
  then have q: "querySelector ''data-slate-spacer'' (currentClone env e sel) = Some q" by simp
  from querySelector_sound [OF q] obtain n where
    n: "dom_get (currentClone env e sel) q = Some n" "isDOMElement n"
       "getAttribute n ''data-slate-spacer'' \<noteq> None" by blast
  have first: "\<forall>q' n'. (q', q) \<in> documentOrder \<and> dom_get (currentClone env e sel) q' = Some n' \<longrightarrow>
              getAttribute n' ''data-slate-spacer'' = None"
    using querySelector_first [OF q] by blast
  let ?a1 = "attachAfterClone (Editor_void (isVoid env) e (path (fst (Range_edges sel))) \<noteq> None)
             (Editor_void (isVoid env) e (path (snd (Range_edges sel))) \<noteq> None)
             (firstClone env e sel) (currentClone env e sel)"
  from a have a1: "?a1 = Some (Attached q)"
    unfolding startsInVoid_def by (simp add: attachAfterClone_def)
  have an: "attachNode (currentClone env e sel) (Some (Attached q)) = Some n"
    using n(1) by (simp add: attachNode_def)
  let ?r = "removeZeroWidth (currentClone env e sel) (Some (Attached q))"
  from removeZeroWidth_node [OF an]
  have rn: "attachNode (fst ?r) (snd ?r) = Some (stripZeroWidth n)" by simp
  have se: "isDOMElement (stripZeroWidth n)" using n(2) by (simp add: stripZeroWidth_kind)
  then have nt: "\<not> isDOMText (stripZeroWidth n)" by (cases "stripZeroWidth n") simp_all
  have cs: "cloneSelection env e sel = wrapTextAttach env (fst ?r) (snd ?r)"
    by (subst cloneSelection_eq) (simp only: a1)
  from wrapTextAttach_node [OF rn, of env] nt
  have node: "attachNode (fst (cloneSelection env e sel)) (snd (cloneSelection env e sel)) =
             Some (stripZeroWidth n)"
    by (simp add: cs)
  have markup: "\<not> attributeAbove ''data-slate-zero-width'' (currentClone env e sel) q \<longrightarrow>
              cloneSelection env e sel =
                (map stripZeroWidth (currentClone env e sel), Some (Attached q)) \<and>
              attachFragment enc (fst (cloneSelection env e sel)) (snd (cloneSelection env e sel)) =
                Some (dom_update (withFragment enc)
                        (map stripZeroWidth (currentClone env e sel)) q)"
  proof (intro impI)
    assume na: "\<not> attributeAbove ''data-slate-zero-width'' (currentClone env e sel) q"
    then have r: "?r = (map stripZeroWidth (currentClone env e sel), Some (Attached q))"
      by (simp add: removeZeroWidth_def)
    from dom_get_strip [OF na] n(1)
    have g: "dom_get (map stripZeroWidth (currentClone env e sel)) q = Some (stripZeroWidth n)"
      by simp
    from se obtain t at d kids where el: "stripZeroWidth n = DOMElement t at d kids"
      by (cases "stripZeroWidth n") simp_all
    have c: "cloneSelection env e sel =
        (map stripZeroWidth (currentClone env e sel), Some (Attached q))"
      using g el by (simp add: cs r wrapTextAttach_def attachNode_def)
    have "attachFragment enc (map stripZeroWidth (currentClone env e sel)) (Some (Attached q)) =
        Some (dom_update (\<lambda>old. withFragment enc (stripZeroWidth n))
                (map stripZeroWidth (currentClone env e sel)) q)"
      using g el by (simp add: attachFragment_def attachNode_def withFragment_def)
    also have "dom_update (\<lambda>old. withFragment enc (stripZeroWidth n))
                (map stripZeroWidth (currentClone env e sel)) q =
        dom_update (withFragment enc) (map stripZeroWidth (currentClone env e sel)) q"
      by (rule dom_update_const [OF g])
    finally show "cloneSelection env e sel =
                (map stripZeroWidth (currentClone env e sel), Some (Attached q)) \<and>
              attachFragment enc (fst (cloneSelection env e sel)) (snd (cloneSelection env e sel)) =
                Some (dom_update (withFragment enc)
                        (map stripZeroWidth (currentClone env e sel)) q)"
      using c by simp
  qed
  from n first node markup
  show "\<exists>n. dom_get (currentClone env e sel) q = Some n \<and> isDOMElement n \<and>
           getAttribute n ''data-slate-spacer'' \<noteq> None \<and>
           (\<forall>q' n'. (q', q) \<in> documentOrder \<and> dom_get (currentClone env e sel) q' = Some n' \<longrightarrow>
              getAttribute n' ''data-slate-spacer'' = None) \<and>
           attachNode (fst (cloneSelection env e sel)) (snd (cloneSelection env e sel)) =
             Some (stripZeroWidth n) \<and>
           (\<not> attributeAbove ''data-slate-zero-width'' (currentClone env e sel) q \<longrightarrow>
              cloneSelection env e sel =
                (map stripZeroWidth (currentClone env e sel), Some (Attached q)) \<and>
              attachFragment enc (fst (cloneSelection env e sel)) (snd (cloneSelection env e sel)) =
                Some (dom_update (withFragment enc)
                        (map stripZeroWidth (currentClone env e sel)) q))"
    by blast
qed

lemma leafMarkup_facts:
  "nonEmptyText (leafMarkup [0x61])" "nonEmptyText (leafMarkup [0x62])"
  "stripZeroWidth (leafMarkup s) = leafMarkup s" "isDOMElement (leafMarkup s)"
  by (simp_all add: leafMarkup_def nonEmptyText_def trim_def isWhiteSpace_def)

lemma twoLeaf_edges:
  "Range_edges \<lparr>anchor = \<lparr>path = [0, 0], offset = 0\<rparr>, focus = \<lparr>path = [0, 1], offset = 1\<rparr>\<rparr> =
     (\<lparr>path = [0, 0], offset = 0\<rparr>, \<lparr>path = [0, 1], offset = 1\<rparr>)"
  by (simp add: Range_edges_def Range_isBackward_def Point_compare_def)

lemma twoLeaf_facts:
  "\<not> startsInVoid twoLeafEnv (editor twoLeafWorld)
     \<lparr>anchor = \<lparr>path = [0, 0], offset = 0\<rparr>, focus = \<lparr>path = [0, 1], offset = 1\<rparr>\<rparr>"
  "\<not> endsInVoid twoLeafEnv (editor twoLeafWorld)
     \<lparr>anchor = \<lparr>path = [0, 0], offset = 0\<rparr>, focus = \<lparr>path = [0, 1], offset = 1\<rparr>\<rparr>"
  "firstClone twoLeafEnv (editor twoLeafWorld)
     \<lparr>anchor = \<lparr>path = [0, 0], offset = 0\<rparr>, focus = \<lparr>path = [0, 1], offset = 1\<rparr>\<rparr> =
     [leafMarkup [0x61], leafMarkup [0x62]]"
  unfolding startsInVoid_def endsInVoid_def firstClone_def twoLeaf_edges fst_conv snd_conv
  by (simp_all add: Editor_void_def twoLeafWorld_def twoLeafEnv_def exampleEnv_def)

lemma twoLeaf_chosen: "chosenChild [leafMarkup [0x61], leafMarkup [0x62]] 1"
  by (simp add: chosenChild_def leafMarkup_facts)

lemma twoLeaf_attach:
  "attachFragment [0x78]
     (fst (cloneSelection twoLeafEnv (editor twoLeafWorld)
        \<lparr>anchor = \<lparr>path = [0, 0], offset = 0\<rparr>, focus = \<lparr>path = [0, 1], offset = 1\<rparr>\<rparr>))
     (snd (cloneSelection twoLeafEnv (editor twoLeafWorld)
        \<lparr>anchor = \<lparr>path = [0, 0], offset = 0\<rparr>, focus = \<lparr>path = [0, 1], offset = 1\<rparr>\<rparr>)) =
     Some [leafMarkup [0x61], withFragment [0x78] (leafMarkup [0x62])]"
proof -
  let ?sel = "\<lparr>anchor = \<lparr>path = [0, 0], offset = 0\<rparr>, focus = \<lparr>path = [0, 1], offset = 1\<rparr>\<rparr>"
  have ch: "chosenChild (firstClone twoLeafEnv (editor twoLeafWorld) ?sel) 1"
    unfolding twoLeaf_facts(3) by (rule twoLeaf_chosen)
  have el: "isDOMElement (firstClone twoLeafEnv (editor twoLeafWorld) ?sel ! 1)"
    unfolding twoLeaf_facts(3) by (simp add: leafMarkup_facts)
  from attach_element_child(2) [OF twoLeaf_facts(1) twoLeaf_facts(2) ch el, of "[0x78]"]
  show ?thesis unfolding twoLeaf_facts(3) by (simp add: leafMarkup_facts)
qed

lemma example_text_chosen: "chosenChild [DOMText [0x61, 0x62]] 0"
  by (simp add: chosenChild_def)

lemma example_void_strip:
  "\<not> attributeAbove ''data-slate-zero-width''
     [DOMElement ''DIV'' [(''data-slate-void'', js ''true'')] ''block''
        [DOMElement ''DIV'' [(''data-slate-spacer'', js ''true'')] ''block''
           [DOMElement ''SPAN'' [(''data-slate-zero-width'', js ''z'')] ''inline''
              [DOMText [0xFEFF]]]]] [0, 0]"
  "dom_update (withFragment [0x78])
     (map stripZeroWidth
       [DOMElement ''DIV'' [(''data-slate-void'', js ''true'')] ''block''
          [DOMElement ''DIV'' [(''data-slate-spacer'', js ''true'')] ''block''
             [DOMElement ''SPAN'' [(''data-slate-zero-width'', js ''z'')] ''inline''
                [DOMText [0xFEFF]]]]]) [0, 0] =
     [DOMElement ''DIV'' [(''data-slate-void'', js ''true'')] ''block''
        [DOMElement ''DIV'' [(''data-slate-spacer'', js ''true''), (''data-slate-fragment'', [0x78])]
           ''block''
           [DOMElement ''SPAN'' [(''data-slate-zero-width'', js ''z'')] ''inline'' []]]]"
  by (simp_all add: withFragment_def js_def)

theorem attach_choice_witness:
  "\<not> startsInVoid twoLeafEnv (editor twoLeafWorld)
     \<lparr>anchor = \<lparr>path = [0, 0], offset = 0\<rparr>, focus = \<lparr>path = [0, 1], offset = 1\<rparr>\<rparr> \<and>
   \<not> endsInVoid twoLeafEnv (editor twoLeafWorld)
     \<lparr>anchor = \<lparr>path = [0, 0], offset = 0\<rparr>, focus = \<lparr>path = [0, 1], offset = 1\<rparr>\<rparr> \<and>
   chosenChild (firstClone twoLeafEnv (editor twoLeafWorld)
     \<lparr>anchor = \<lparr>path = [0, 0], offset = 0\<rparr>, focus = \<lparr>path = [0, 1], offset = 1\<rparr>\<rparr>) 1 \<and>
   attachFragment [0x78]
     (fst (cloneSelection twoLeafEnv (editor twoLeafWorld)
        \<lparr>anchor = \<lparr>path = [0, 0], offset = 0\<rparr>, focus = \<lparr>path = [0, 1], offset = 1\<rparr>\<rparr>))
     (snd (cloneSelection twoLeafEnv (editor twoLeafWorld)
        \<lparr>anchor = \<lparr>path = [0, 0], offset = 0\<rparr>, focus = \<lparr>path = [0, 1], offset = 1\<rparr>\<rparr>)) =
     Some [leafMarkup [0x61], withFragment [0x78] (leafMarkup [0x62])] \<and>
   chosenChild (firstClone exampleEnv (editor exampleWorld)
     \<lparr>anchor = \<lparr>path = [0, 0], offset = 0\<rparr>, focus = \<lparr>path = [0, 0], offset = 2\<rparr>\<rparr>) 0 \<and>
   attachFragment [0x78]
     (fst (cloneSelection exampleEnv (editor exampleWorld)
        \<lparr>anchor = \<lparr>path = [0, 0], offset = 0\<rparr>, focus = \<lparr>path = [0, 0], offset = 2\<rparr>\<rparr>))
     (snd (cloneSelection exampleEnv (editor exampleWorld)
        \<lparr>anchor = \<lparr>path = [0, 0], offset = 0\<rparr>, focus = \<lparr>path = [0, 0], offset = 2\<rparr>\<rparr>)) =
     Some [withFragment [0x78] (spanFor exampleEnv (DOMText [0x61, 0x62]))] \<and>
   startsInVoid exampleEnv \<lparr>children = exampleDoc,
        selection = Some \<lparr>anchor = \<lparr>path = [1, 0], offset = 0\<rparr>,
                           focus = \<lparr>path = [1, 0], offset = 0\<rparr>\<rparr>\<rparr>
     \<lparr>anchor = \<lparr>path = [1, 0], offset = 0\<rparr>, focus = \<lparr>path = [1, 0], offset = 0\<rparr>\<rparr> \<and>
   querySelector ''data-slate-spacer''
     (currentClone exampleEnv \<lparr>children = exampleDoc,
        selection = Some \<lparr>anchor = \<lparr>path = [1, 0], offset = 0\<rparr>,
                           focus = \<lparr>path = [1, 0], offset = 0\<rparr>\<rparr>\<rparr>
        \<lparr>anchor = \<lparr>path = [1, 0], offset = 0\<rparr>, focus = \<lparr>path = [1, 0], offset = 0\<rparr>\<rparr>) = Some [0, 0] \<and>
   attachFragment [0x78]
     (fst (cloneSelection exampleEnv \<lparr>children = exampleDoc,
        selection = Some \<lparr>anchor = \<lparr>path = [1, 0], offset = 0\<rparr>,
                           focus = \<lparr>path = [1, 0], offset = 0\<rparr>\<rparr>\<rparr>
        \<lparr>anchor = \<lparr>path = [1, 0], offset = 0\<rparr>, focus = \<lparr>path = [1, 0], offset = 0\<rparr>\<rparr>))
     (snd (cloneSelection exampleEnv \<lparr>children = exampleDoc,
        selection = Some \<lparr>anchor = \<lparr>path = [1, 0], offset = 0\<rparr>,
                           focus = \<lparr>path = [1, 0], offset = 0\<rparr>\<rparr>\<rparr>
        \<lparr>anchor = \<lparr>path = [1, 0], offset = 0\<rparr>, focus = \<lparr>path = [1, 0], offset = 0\<rparr>\<rparr>)) =
     Some [DOMElement ''DIV'' [(''data-slate-void'', js ''true'')] ''block''
        [DOMElement ''DIV'' [(''data-slate-spacer'', js ''true''), (''data-slate-fragment'', [0x78])]
           ''block''
           [DOMElement ''SPAN'' [(''data-slate-zero-width'', js ''z'')] ''inline'' []]]]"
proof -
  let ?sel2 = "\<lparr>anchor = \<lparr>path = [0, 0], offset = 0\<rparr>, focus = \<lparr>path = [0, 1], offset = 1\<rparr>\<rparr>"
  let ?sel = "\<lparr>anchor = \<lparr>path = [0, 0], offset = 0\<rparr>, focus = \<lparr>path = [0, 0], offset = 2\<rparr>\<rparr>"
  let ?selv = "\<lparr>anchor = \<lparr>path = [1, 0], offset = 0\<rparr>, focus = \<lparr>path = [1, 0], offset = 0\<rparr>\<rparr>"
  let ?ev = "\<lparr>children = exampleDoc,
        selection = Some \<lparr>anchor = \<lparr>path = [1, 0], offset = 0\<rparr>,
                           focus = \<lparr>path = [1, 0], offset = 0\<rparr>\<rparr>\<rparr>"
  have ch2: "chosenChild (firstClone twoLeafEnv (editor twoLeafWorld) ?sel2) 1"
    unfolding twoLeaf_facts(3) by (rule twoLeaf_chosen)
  have el2: "isDOMElement (firstClone twoLeafEnv (editor twoLeafWorld) ?sel2 ! 1)"
    unfolding twoLeaf_facts(3) by (simp add: leafMarkup_facts)
  from attach_choice [of twoLeafEnv "editor twoLeafWorld" ?sel2 1 "[]" "[0x78]" "[]"]
    twoLeaf_facts(1,2) ch2 el2
  have "attachFragment [0x78]
     (fst (cloneSelection twoLeafEnv (editor twoLeafWorld) ?sel2))
     (snd (cloneSelection twoLeafEnv (editor twoLeafWorld) ?sel2)) =
     Some ((map stripZeroWidth (firstClone twoLeafEnv (editor twoLeafWorld) ?sel2))
        [1 := withFragment [0x78] (stripZeroWidth (firstClone twoLeafEnv (editor twoLeafWorld) ?sel2 ! 1))])"
    by blast
  then have r2: "attachFragment [0x78]
     (fst (cloneSelection twoLeafEnv (editor twoLeafWorld) ?sel2))
     (snd (cloneSelection twoLeafEnv (editor twoLeafWorld) ?sel2)) =
     Some [leafMarkup [0x61], withFragment [0x78] (leafMarkup [0x62])]"
    unfolding twoLeaf_facts(3) by (simp add: leafMarkup_facts)
  have ch: "chosenChild (firstClone exampleEnv (editor exampleWorld) ?sel) 0"
    unfolding example_voids(3) by (rule example_text_chosen)
  have tx: "firstClone exampleEnv (editor exampleWorld) ?sel ! 0 = DOMText [0x61, 0x62]"
    unfolding example_voids(3) by simp
  from attach_choice [of exampleEnv "editor exampleWorld" ?sel 0 "[0x61, 0x62]" "[0x78]" "[]"]
    example_voids(1,2) ch tx
  have "attachFragment [0x78]
     (fst (cloneSelection exampleEnv (editor exampleWorld) ?sel))
     (snd (cloneSelection exampleEnv (editor exampleWorld) ?sel)) =
     Some (dom_remove (map stripZeroWidth (firstClone exampleEnv (editor exampleWorld) ?sel)) [0] @
        [withFragment [0x78] (spanFor exampleEnv (DOMText [0x61, 0x62]))])"
    by blast
  then have r: "attachFragment [0x78]
     (fst (cloneSelection exampleEnv (editor exampleWorld) ?sel))
     (snd (cloneSelection exampleEnv (editor exampleWorld) ?sel)) =
     Some [withFragment [0x78] (spanFor exampleEnv (DOMText [0x61, 0x62]))]"
    unfolding example_voids(3) by simp
  have sv: "startsInVoid exampleEnv ?ev ?selv"
    and cv: "currentClone exampleEnv ?ev ?selv =
     [DOMElement ''DIV'' [(''data-slate-void'', js ''true'')] ''block''
        [DOMElement ''DIV'' [(''data-slate-spacer'', js ''true'')] ''block''
           [DOMElement ''SPAN'' [(''data-slate-zero-width'', js ''z'')] ''inline''
              [DOMText [0xFEFF]]]]]"
    by (rule example_void_clone)+
  have qv: "querySelector ''data-slate-spacer'' (currentClone exampleEnv ?ev ?selv) = Some [0, 0]"
    by (simp only: cv example_void_spacer)
  have na: "\<not> attributeAbove ''data-slate-zero-width'' (currentClone exampleEnv ?ev ?selv) [0, 0]"
    by (simp only: cv example_void_strip(1) not_False_eq_True)
  from attach_choice [of exampleEnv ?ev ?selv 0 "[]" "[0x78]" "[0, 0]"] sv qv na
  have "attachFragment [0x78]
     (fst (cloneSelection exampleEnv ?ev ?selv)) (snd (cloneSelection exampleEnv ?ev ?selv)) =
     Some (dom_update (withFragment [0x78])
             (map stripZeroWidth (currentClone exampleEnv ?ev ?selv)) [0, 0])"
    by blast
  then have rv: "attachFragment [0x78]
     (fst (cloneSelection exampleEnv ?ev ?selv)) (snd (cloneSelection exampleEnv ?ev ?selv)) =
     Some [DOMElement ''DIV'' [(''data-slate-void'', js ''true'')] ''block''
        [DOMElement ''DIV'' [(''data-slate-spacer'', js ''true''), (''data-slate-fragment'', [0x78])]
           ''block''
           [DOMElement ''SPAN'' [(''data-slate-zero-width'', js ''z'')] ''inline'' []]]]"
    by (simp only: cv example_void_strip(2))
  show ?thesis
    by (intro conjI twoLeaf_facts(1) twoLeaf_facts(2) ch2 r2 ch r sv qv rv)
qed

theorem attach_choice_counterexample:
  "\<not> startsInVoid twoLeafEnv (editor twoLeafWorld)
     \<lparr>anchor = \<lparr>path = [0, 0], offset = 0\<rparr>, focus = \<lparr>path = [0, 1], offset = 1\<rparr>\<rparr> \<and>
   firstClone twoLeafEnv (editor twoLeafWorld)
     \<lparr>anchor = \<lparr>path = [0, 0], offset = 0\<rparr>, focus = \<lparr>path = [0, 1], offset = 1\<rparr>\<rparr> =
     [leafMarkup [0x61], leafMarkup [0x62]] \<and>
   firstNonEmptyTextDescendant [leafMarkup [0x61], leafMarkup [0x62]] = Some [0] \<and>
   attachFragment [0x78]
     (fst (cloneSelection twoLeafEnv (editor twoLeafWorld)
        \<lparr>anchor = \<lparr>path = [0, 0], offset = 0\<rparr>, focus = \<lparr>path = [0, 1], offset = 1\<rparr>\<rparr>))
     (snd (cloneSelection twoLeafEnv (editor twoLeafWorld)
        \<lparr>anchor = \<lparr>path = [0, 0], offset = 0\<rparr>, focus = \<lparr>path = [0, 1], offset = 1\<rparr>\<rparr>)) =
     Some [leafMarkup [0x61], withFragment [0x78] (leafMarkup [0x62])] \<and>
   getAttribute (withFragment [0x78] (leafMarkup [0x62])) ''data-slate-fragment'' = Some [0x78] \<and>
   getAttribute (leafMarkup [0x61]) ''data-slate-fragment'' = None"
proof -
  have a: "firstNonEmptyTextDescendant [leafMarkup [0x61], leafMarkup [0x62]] = Some [0]"
    by (simp add: firstNonEmptyTextDescendant_def leafMarkup_def nonEmptyText_def trim_def
        isWhiteSpace_def)
  have b: "getAttribute (withFragment [0x78] (leafMarkup [0x62])) ''data-slate-fragment'' =
      Some [0x78]"
    by (simp add: leafMarkup_def withFragment_def getAttribute_def)
  have c: "getAttribute (leafMarkup [0x61]) ''data-slate-fragment'' = None"
    by (simp add: leafMarkup_def getAttribute_def)
  show ?thesis
    by (intro conjI twoLeaf_facts(1) twoLeaf_facts(3) a twoLeaf_attach b c)
qed

lemma setFragmentData_frame_aux:
  "editor (snd (finalState (setFragmentData env dt w))) = editor w \<and>
   (snd (finalState (setFragmentData env dt w)))\<lparr>trace := trace w\<rparr> = w \<and>
   filter isModelRequest (issued w (snd (finalState (setFragmentData env dt w)))) = []"
  using setFragmentData_cases [of env dt w]
  by (elim disjE exE) (simp_all add: finalState_def issued_def)

lemma finalState_bind:
  "finalState (case r of Inl (err, (dt, w')) \<Rightarrow> Inl (err, (f dt, w')) | Inr (dt, w') \<Rightarrow> Inr (f dt, w'))
     = (f (fst (finalState r)), snd (finalState r))"
  by (auto simp: finalState_def split: sum.splits prod.splits)

lemma onCopy_final:
  "snd (finalState (onCopy env p ev w)) = w \<or>
   snd (finalState (onCopy env p ev w)) =
     snd (finalState (setFragmentData env
        (transfer (preventDefault (snd (isEventHandled ev (attr_onCopy p))))) w))"
proof (cases "hasEditableTarget env (editor w) (target ev) \<and> \<not> fst (isEventHandled ev (attr_onCopy p))")
  case True
  then have "onCopy env p ev w =
    (case setFragmentData env (transfer (preventDefault (snd (isEventHandled ev (attr_onCopy p))))) w of
       Inl (err, (dt, w')) \<Rightarrow> Inl (err, ((preventDefault (snd (isEventHandled ev (attr_onCopy p))))\<lparr>transfer := dt\<rparr>, w'))
     | Inr (dt, w') \<Rightarrow> Inr ((preventDefault (snd (isEventHandled ev (attr_onCopy p))))\<lparr>transfer := dt\<rparr>, w'))"
    by (simp add: onCopy_def Let_def case_prod_beta)
  then show ?thesis by (simp add: finalState_bind)
next
  case False
  then have "snd (finalState (onCopy env p ev w)) = w"
    by (auto simp: onCopy_def finalState_def Let_def case_prod_beta)
  then show ?thesis by simp
qed

text \<open>
  Claim C10.  \<open>setFragmentData\<close>, and with it a copy, never modifies the logical
  document or the logical selection: whether the call returns or throws, the editor
  it ends with is the editor it started with, it issues no request to the model, and
  the only component state that differs is the record of the transfer entries
  written.
\<close>

theorem setFragmentData_frame:
  "editor (snd (finalState (setFragmentData env dt w))) = editor w \<and>
   (snd (finalState (setFragmentData env dt w)))\<lparr>trace := trace w\<rparr> = w \<and>
   filter isModelRequest (issued w (snd (finalState (setFragmentData env dt w)))) = [] \<and>
   editor (snd (finalState (onCopy env p ev w))) = editor w \<and>
   filter isModelRequest (issued w (snd (finalState (onCopy env p ev w)))) = []"
proof -
  have "editor (snd (finalState (onCopy env p ev w))) = editor w \<and>
   filter isModelRequest (issued w (snd (finalState (onCopy env p ev w)))) = []"
    using onCopy_final [of env p ev w]
      setFragmentData_frame_aux [of env "transfer (preventDefault (snd (isEventHandled ev (attr_onCopy p))))" w]
    by (auto simp: issued_def)
  with setFragmentData_frame_aux [of env dt w] show ?thesis by simp
qed

theorem setFragmentData_frame_witness:
  "editor (snd (finalState (setFragmentData exampleEnv [] exampleWorld))) = editor exampleWorld \<and>
   returned (setFragmentData exampleEnv [] exampleWorld) \<and>
   length (issued exampleWorld (snd (finalState (setFragmentData exampleEnv [] exampleWorld)))) = 3"
  using setFragmentData_frame [of exampleEnv "[]" exampleWorld exampleProps exampleEvent]
  by (simp add: example_setFragmentData finalState_def returned_def issued_def)
     (simp add: exampleWorld_def)


subsection \<open>Cut\<close>

lemma onCut_eq:
  assumes "\<not> readOnly p" "hasEditableTarget env (editor w) (target ev)"
    "\<not> fst (isEventHandled ev (attr_onCut p))"
  shows "onCut env p ev w =
    (let ev2 = preventDefault (snd (isEventHandled ev (attr_onCut p))) in
     case setFragmentData env (transfer ev2) w of
       Inl (err, (dt, w')) \<Rightarrow> Inl (err, (ev2\<lparr>transfer := dt\<rparr>, w'))
     | Inr (dt, w') \<Rightarrow>
         (case selection (editor w') of
            Some sel \<Rightarrow>
              if Range_isExpanded sel
              then Inr (ev2\<lparr>transfer := dt\<rparr>, Editor_deleteFragment env w')
              else Inr (ev2\<lparr>transfer := dt\<rparr>, w')
          | None \<Rightarrow> Inr (ev2\<lparr>transfer := dt\<rparr>, w')))"
  using assms by (simp add: onCut_def Let_def case_prod_beta)

lemma setFragmentData_expanded_stock:
  assumes "selection (editor w) = Some sel" "Range_isExpanded sel"
    "stockRendered env (editor w) sel"
  shows "\<exists>dt' a b c. setFragmentData env dt w =
      Inr (dt', w\<lparr>trace := trace w @
        [SetData ''application/x-slate-fragment'' a, SetData ''text/html'' b,
         SetData ''text/plain'' c]\<rparr>)"
proof -
  from assms(1,2) have "\<not> nothingToCopy env (editor w)"
    by (simp add: nothingToCopy_def Range_isExpanded_def)
  from setFragmentData_stock [OF assms(1) this assms(3), of dt] show ?thesis by blast
qed

text \<open>
  Claim C6.  The cut handler, on an editor that is not read-only, with an editable
  target and the event unhandled, on the markup the component renders: it requests
  the deletion of the selected fragment if and only if the logical selection is
  expanded; when it does, it returns normally, the three transfer entries have been
  written before the delete request, and the editor is what the editor's
  \<open>deleteFragment\<close> makes of it.  With a collapsed or absent selection, also one at
  a void node, the handler issues no request to the model and the document and the
  selection are left unchanged.
\<close>

theorem onCut_writes_then_deletes:
  assumes "\<not> readOnly p"
    and "hasEditableTarget env (editor w) (target ev)"
    and "\<not> fst (isEventHandled ev (attr_onCut p))"
    and "\<forall>sel. selection (editor w) = Some sel \<and> Range_isExpanded sel \<longrightarrow>
           stockRendered env (editor w) sel"
  shows
    "(DeleteFragment \<in> set (issued w (snd (finalState (onCut env p ev w)))) \<longleftrightarrow>
        selectionExpanded (editor w)) \<and>
     (selectionExpanded (editor w) \<longrightarrow>
        returned (onCut env p ev w) \<and>
        (\<exists>a b c. issued w (snd (finalState (onCut env p ev w))) =
           [SetData ''application/x-slate-fragment'' a, SetData ''text/html'' b,
            SetData ''text/plain'' c, DeleteFragment]) \<and>
        editor (snd (finalState (onCut env p ev w))) = deleteFragment env (editor w)) \<and>
     (\<not> selectionExpanded (editor w) \<longrightarrow>
        editor (snd (finalState (onCut env p ev w))) = editor w \<and>
        filter isModelRequest (issued w (snd (finalState (onCut env p ev w)))) = [])"
proof -
  let ?ev2 = "preventDefault (snd (isEventHandled ev (attr_onCut p)))"
  note eq = onCut_eq [OF assms(1-3)]
  show ?thesis
  proof (cases "selectionExpanded (editor w)")
    case True
    then obtain sel where sel: "selection (editor w) = Some sel" "Range_isExpanded sel"
      by (auto simp: selectionExpanded_def split: option.splits)
    with assms(4) have "stockRendered env (editor w) sel" by blast
    from setFragmentData_expanded_stock [OF sel this, of "transfer ?ev2"]
    obtain dt' a b c where "setFragmentData env (transfer ?ev2) w =
        Inr (dt', w\<lparr>trace := trace w @
          [SetData ''application/x-slate-fragment'' a, SetData ''text/html'' b,
           SetData ''text/plain'' c]\<rparr>)"
      by blast
    then show ?thesis
      using True sel
      by (simp add: eq Let_def returned_def finalState_def issued_def Editor_deleteFragment_def)
  next
    case False
    from setFragmentData_cases [of env "transfer ?ev2" w] show ?thesis
    proof (elim disjE exE)
      assume "setFragmentData env (transfer ?ev2) w = Inr (transfer ?ev2, w)"
      then show ?thesis
        using False
        by (auto simp: eq Let_def returned_def finalState_def issued_def selectionExpanded_def
            split: option.splits)
    next
      assume "setFragmentData env (transfer ?ev2) w = Inl (TypeError, (transfer ?ev2, w))"
      then show ?thesis
        using False by (simp add: eq Let_def returned_def finalState_def issued_def)
    next
      fix dt' a b c
      assume "setFragmentData env (transfer ?ev2) w =
        Inr (dt', w\<lparr>trace := trace w @
          [SetData ''application/x-slate-fragment'' a, SetData ''text/html'' b,
           SetData ''text/plain'' c]\<rparr>)"
      then show ?thesis
        using False
        by (auto simp: eq Let_def returned_def finalState_def issued_def selectionExpanded_def
            split: option.splits)
    qed
  qed
qed

lemma example_guard:
  "\<not> readOnly exampleProps"
  "hasEditableTarget exampleEnv (editor exampleWorld) (target exampleEvent)"
  "hasTarget exampleEnv (editor exampleWorld) (target exampleEvent)"
  "isEventHandled exampleEvent None = (False, exampleEvent)"
  by (simp_all add: exampleProps_def hasEditableTarget_def hasTarget_def exampleEnv_def
      exampleEvent_def isEventHandled_def)

lemma example_handlers:
  "attr_onCut exampleProps = None" "attr_onCopy exampleProps = None"
  "attr_onClick exampleProps = None" "attr_onDragStart exampleProps = None"
  "transfer exampleEvent = []" "transfer (preventDefault exampleEvent) = []"
  by (simp_all add: exampleProps_def exampleEvent_def preventDefault_def)

lemma example_target: "target exampleEvent = Some 21"
  by (simp add: exampleEvent_def)

theorem onCut_writes_then_deletes_witness:
  "\<not> readOnly exampleProps \<and>
   hasEditableTarget exampleEnv (editor exampleWorld) (target exampleEvent) \<and>
   \<not> fst (isEventHandled exampleEvent (attr_onCut exampleProps)) \<and>
   stockRendered exampleEnv (editor exampleWorld)
     \<lparr>anchor = \<lparr>path = [0, 0], offset = 0\<rparr>, focus = \<lparr>path = [0, 0], offset = 2\<rparr>\<rparr> \<and>
   selectionExpanded (editor exampleWorld) \<and>
   returned (onCut exampleEnv exampleProps exampleEvent exampleWorld) \<and>
   issued exampleWorld (snd (finalState (onCut exampleEnv exampleProps exampleEvent exampleWorld))) =
     [SetData ''application/x-slate-fragment'' [0x61, 0x62], SetData ''text/html'' [0x61, 0x62],
      SetData ''text/plain'' [0x61, 0x62], DeleteFragment] \<and>
   editor (snd (finalState (onCut exampleEnv exampleProps exampleEvent exampleWorld))) =
     deleteFragment exampleEnv (editor exampleWorld)"
proof -
  have 3: "\<not> fst (isEventHandled exampleEvent (attr_onCut exampleProps))"
    by (simp add: example_handlers example_guard)
  have ex: "selectionExpanded (editor exampleWorld)"
    by (simp add: selectionExpanded_def exampleWorld_selection Range_isExpanded_def
        Range_isCollapsed_def)
  have 4: "\<forall>sel. selection (editor exampleWorld) = Some sel \<and> Range_isExpanded sel \<longrightarrow>
           stockRendered exampleEnv (editor exampleWorld) sel"
    using example_stockRendered by (auto simp: exampleWorld_selection)
  have tr: "trace exampleWorld = []" by (simp add: exampleWorld_def)
  from onCut_writes_then_deletes [OF example_guard(1) example_guard(2) 3 4] ex
  have r: "returned (onCut exampleEnv exampleProps exampleEvent exampleWorld)"
    and d: "editor (snd (finalState (onCut exampleEnv exampleProps exampleEvent exampleWorld))) =
     deleteFragment exampleEnv (editor exampleWorld)"
    by simp_all
  have "onCut exampleEnv exampleProps exampleEvent exampleWorld =
     Inr ((preventDefault exampleEvent)\<lparr>transfer :=
            [(''application/x-slate-fragment'', [0x61, 0x62]), (''text/html'', [0x61, 0x62]),
             (''text/plain'', [0x61, 0x62])]\<rparr>,
          Editor_deleteFragment exampleEnv (exampleWorld\<lparr>trace :=
            [SetData ''application/x-slate-fragment'' [0x61, 0x62],
             SetData ''text/html'' [0x61, 0x62], SetData ''text/plain'' [0x61, 0x62]]\<rparr>))"
    by (simp add: onCut_def example_guard example_handlers example_setFragmentData
        exampleWorld_selection Range_isExpanded_def Range_isCollapsed_def)
  then have "issued exampleWorld
      (snd (finalState (onCut exampleEnv exampleProps exampleEvent exampleWorld))) =
     [SetData ''application/x-slate-fragment'' [0x61, 0x62], SetData ''text/html'' [0x61, 0x62],
      SetData ''text/plain'' [0x61, 0x62], DeleteFragment]"
    by (simp add: finalState_def issued_def Editor_deleteFragment_def tr)
  with r d ex 3 example_guard example_stockRendered show ?thesis by simp
qed


subsection \<open>Read-only editors\<close>


lemma setFragmentData_final:
  "editor (snd (finalState (setFragmentData env dt w))) = editor w"
  "\<exists>xs. trace (snd (finalState (setFragmentData env dt w))) = trace w @ xs \<and>
      filter isModelRequest xs = []"
  using setFragmentData_cases [of env dt w]
  by (auto simp: finalState_def)










subsection \<open>Inbound selection synchronisation\<close>

lemma onDOMSelectionChange_skips:
  "listenerReadOnly w \<or> isComposing w \<or> isUpdatingSelection w \<Longrightarrow>
     onDOMSelectionChange env w = w"
  by (auto simp: onDOMSelectionChange_def)

lemma listenerReadOnly_updateDOMSelection:
  "listenerReadOnly (updateDOMSelection env nr w) = listenerReadOnly w"
  by (simp add: updateDOMSelection_def Let_def split: option.split)

lemma listenerReadOnly_render:
  "listenerReadOnly (mount env p w) = readOnly p"
  "listenerReadOnly (rerender env p w) = listenerReadOnly w"
  by (simp_all add: mount_def rerender_def syncSelection_eq listenerReadOnly_updateDOMSelection)

lemma onDOMSelectionChange_deselects:
  assumes "\<not> listenerReadOnly w" "\<not> isComposing w" "\<not> isUpdatingSelection w"
    and "\<forall>t. \<not> hasDOMNode env (editor w) t True"
  shows "issued w (onDOMSelectionChange env w) = [Deselect] \<and>
     selection (editor (onDOMSelectionChange env w)) = None \<and>
     children (editor (onDOMSelectionChange env w)) = children (editor w)"
  using assms
  by (simp add: onDOMSelectionChange_def Let_def hasEditableTarget_def Transforms_deselect_def
      issued_def split: option.split)

lemma example_mounted:
  "rerender readOnlyEnv (exampleProps\<lparr>readOnly := True\<rparr>) (mount exampleEnv exampleProps exampleWorld)
     = exampleWorld\<lparr>IS_READ_ONLY := True\<rparr>"
  by (simp add: mount_def rerender_def syncSelection_def exampleWorld_def exampleEnv_def
      readOnlyEnv_def exampleProps_def isRangeEqual_def refOfPath_def)

text \<open>
  Claim C9.  The listener skips when the \<open>readOnly\<close> of its closure, the composing
  flag or the updatingSelection flag is set (\<open>onDOMSelectionChange_skips\<close>).  Its
  closure is the one of the first render, though, and later renders do not replace
  it (\<open>listenerReadOnly_render\<close>): on the example editor, mounted editable and
  rendered again read-only, one run of the listener does not skip.  It finds, after
  the read-only render, no editable node at the native range
  (\<open>onDOMSelectionChange_deselects\<close>), requests the model to deselect, and the logical
  selection is gone.
\<close>

theorem onDOMSelectionChange_stale_readOnly:
  "IS_READ_ONLY (rerender readOnlyEnv (exampleProps\<lparr>readOnly := True\<rparr>)
      (mount exampleEnv exampleProps exampleWorld)) \<and>
   selection (editor (rerender readOnlyEnv (exampleProps\<lparr>readOnly := True\<rparr>)
      (mount exampleEnv exampleProps exampleWorld))) =
     Some \<lparr>anchor = \<lparr>path = [0, 0], offset = 0\<rparr>, focus = \<lparr>path = [0, 0], offset = 2\<rparr>\<rparr> \<and>
   issued
     (rerender readOnlyEnv (exampleProps\<lparr>readOnly := True\<rparr>)
        (mount exampleEnv exampleProps exampleWorld))
     (onDOMSelectionChange readOnlyEnv
        (rerender readOnlyEnv (exampleProps\<lparr>readOnly := True\<rparr>)
           (mount exampleEnv exampleProps exampleWorld))) = [Deselect] \<and>
   selection (editor (onDOMSelectionChange readOnlyEnv
        (rerender readOnlyEnv (exampleProps\<lparr>readOnly := True\<rparr>)
           (mount exampleEnv exampleProps exampleWorld)))) = None"
  by (simp add: example_mounted)
     (simp add: onDOMSelectionChange_def exampleWorld_def readOnlyEnv_def exampleEnv_def
      refOfPath_def hasEditableTarget_def Transforms_deselect_def issued_def)


subsection \<open>The placeholder decoration\<close>

lemma texts_of_Text: "t \<in> set (texts_of n) \<Longrightarrow> \<exists>s m. t = Text s m"
  by (induction n) auto

lemma wfNode_texts_nonempty: "wfNode n \<Longrightarrow> texts_of n \<noteq> []"
proof (induction n)
  case (Text s m)
  then show ?case by simp
next
  case (Element t cs)
  then obtain c cs' where cs: "cs = c # cs'" by (cases cs) auto
  with Element.prems have "wfNode c" by simp
  with Element.IH [of c] cs have "texts_of c \<noteq> []" by simp
  with cs show ?case by simp
qed

lemma wf_length_texts:
  "list_all wfNode cs \<Longrightarrow> length cs \<le> length (concat (map texts_of cs))"
proof (induction cs)
  case Nil
  then show ?case by simp
next
  case (Cons c cs)
  then have "texts_of c \<noteq> []" by (simp add: wfNode_texts_nonempty)
  then have "1 \<le> length (texts_of c)" by (cases "texts_of c") simp_all
  with Cons show ?case by simp
qed

lemma wfNode_first_leaf: "wfNode n \<Longrightarrow> \<exists>s m. descend n (first_path n) = Some (Text s m)"
  by (induction n rule: first_path.induct) auto

lemma wf_Editor_start:
  assumes "list_all wfNode (children e)" "length (children e) = 1"
  shows "Editor_start e [] = Some (documentStart e)"
proof -
  from assms(2) obtain c where c: "children e = [c]"
    by (cases "children e") auto
  with assms(1) have "wfNode c" by simp
  then obtain s m where "descend c (first_path c) = Some (Text s m)"
    using wfNode_first_leaf by blast
  then show ?thesis
    using c by (simp add: Editor_start_def Node_get_def documentStart_def)
qed

lemma soleEmptyTextLeaf_iff:
  assumes "list_all wfNode (children e)"
  shows "soleEmptyTextLeaf e \<longleftrightarrow>
     length (children e) = 1 \<and> length (Node_texts e) = 1 \<and> Node_string e = []"
proof
  assume sole: "soleEmptyTextLeaf e"
  then obtain m where t: "Node_texts e = [Text [] m]"
    by (auto simp: soleEmptyTextLeaf_def split: list.splits node.splits)
  from wf_length_texts [OF assms] t have "length (children e) \<le> 1"
    by (simp add: Node_texts_def)
  moreover have "children e \<noteq> []" using t by (auto simp: Node_texts_def)
  ultimately have "length (children e) = 1" by (cases "children e") auto
  with t show "length (children e) = 1 \<and> length (Node_texts e) = 1 \<and> Node_string e = []"
    by (simp add: Node_string_def)
next
  assume a: "length (children e) = 1 \<and> length (Node_texts e) = 1 \<and> Node_string e = []"
  then obtain t where t: "Node_texts e = [t]" by (cases "Node_texts e") auto
  then have "t \<in> set (concat (map texts_of (children e)))" by (simp add: Node_texts_def)
  then obtain c where "t \<in> set (texts_of c)" by auto
  then obtain s m where "t = Text s m" using texts_of_Text by blast
  with t a show "soleEmptyTextLeaf e"
    by (simp add: soleEmptyTextLeaf_def Node_string_def)
qed

text \<open>
  On a document of the data model (every element has children, the leaves are
  text), when the array the caller's \<open>decorate\<close> returns holds no placeholder
  decoration: the decorations of a render are the caller's and, if and only if a
  placeholder string is configured (a non-empty one, as the code tests its truth
  value) and the document consists of exactly one empty text leaf, exactly one
  placeholder decoration after them, collapsed at the document start, with the
  marker and the placeholder string attached.
\<close>

lemma placeholder_decoration_fresh:
  assumes "list_all wfNode (children e)"
    and "list_all (\<lambda>d. \<not> PLACEHOLDER_SYMBOL d) (decorate p e)"
  shows "\<exists>ds. decorations p e = Inr ds \<and>
     filter (\<lambda>d. \<not> PLACEHOLDER_SYMBOL d) ds = decorate p e \<and>
     filter PLACEHOLDER_SYMBOL ds =
       (if (\<exists>s. placeholder p = Some s \<and> s \<noteq> []) \<and> soleEmptyTextLeaf e
        then [\<lparr>anchor = documentStart e, focus = documentStart e, markers = [],
               PLACEHOLDER_SYMBOL = True, placeholderOf = placeholder p\<rparr>]
        else [])"
proof -
  have none: "filter PLACEHOLDER_SYMBOL (decorate p e) = []"
    and all: "filter (\<lambda>d. \<not> PLACEHOLDER_SYMBOL d) (decorate p e) = decorate p e"
    using assms(2) by (simp_all add: list_all_iff filter_empty_conv)
  show ?thesis
  proof (cases "(\<exists>s. placeholder p = Some s \<and> s \<noteq> []) \<and> soleEmptyTextLeaf e")
    case True
    then have c: "length (children e) = 1" "length (Node_texts e) = 1" "Node_string e = []"
      using soleEmptyTextLeaf_iff [OF assms(1)] by simp_all
    from wf_Editor_start [OF assms(1) c(1)] True c none all show ?thesis
      by (auto simp: decorations_def Let_def)
  next
    case False
    then have "\<not> ((case placeholder p of None \<Rightarrow> False | Some s \<Rightarrow> s \<noteq> []) \<and>
         length (children e) = 1 \<and> length (Node_texts e) = 1 \<and> Node_string e = [])"
      using soleEmptyTextLeaf_iff [OF assms(1)] by (auto split: option.splits)
    with False none all show ?thesis
      by (auto simp: decorations_def Let_def)
  qed
qed

text \<open>
  Claim C8.  The code pushes the placeholder decoration onto the array the caller's
  \<open>decorate\<close> returned.  With a caller that returns one and the same array at every
  render (empty before the first), a placeholder string configured and the document
  one empty text leaf: the first render yields one placeholder decoration, the
  second render of the same document yields two, and the render after the letter
  \<open>a\<close> was typed still yields one, although the text is no longer empty.
\<close>

theorem placeholder_decoration_shared_array:
  "rendersSharing exampleProps []
     [\<lparr>children = [Element ''paragraph'' [Text [] []]], selection = None\<rparr>] =
     Inr [\<lparr>anchor = \<lparr>path = [0, 0], offset = 0\<rparr>, focus = \<lparr>path = [0, 0], offset = 0\<rparr>,
           markers = [], PLACEHOLDER_SYMBOL = True, placeholderOf = Some [0x54]\<rparr>] \<and>
   rendersSharing exampleProps []
     [\<lparr>children = [Element ''paragraph'' [Text [] []]], selection = None\<rparr>,
      \<lparr>children = [Element ''paragraph'' [Text [] []]], selection = None\<rparr>] =
     Inr [\<lparr>anchor = \<lparr>path = [0, 0], offset = 0\<rparr>, focus = \<lparr>path = [0, 0], offset = 0\<rparr>,
           markers = [], PLACEHOLDER_SYMBOL = True, placeholderOf = Some [0x54]\<rparr>,
          \<lparr>anchor = \<lparr>path = [0, 0], offset = 0\<rparr>, focus = \<lparr>path = [0, 0], offset = 0\<rparr>,
           markers = [], PLACEHOLDER_SYMBOL = True, placeholderOf = Some [0x54]\<rparr>] \<and>
   rendersSharing exampleProps []
     [\<lparr>children = [Element ''paragraph'' [Text [] []]], selection = None\<rparr>,
      \<lparr>children = [Element ''paragraph'' [Text [0x61] []]], selection = None\<rparr>] =
     Inr [\<lparr>anchor = \<lparr>path = [0, 0], offset = 0\<rparr>, focus = \<lparr>path = [0, 0], offset = 0\<rparr>,
           markers = [], PLACEHOLDER_SYMBOL = True, placeholderOf = Some [0x54]\<rparr>]"
  by (simp add: decorations_def exampleProps_def Node_texts_def Node_string_def
      Editor_start_def Node_get_def)

end
